theory Spec2Isabelle
  imports Main
begin

unbundle bit_operations_syntax

section \<open>Digital-signature subsystem of chat-backend: shallow embedding\<close>

text \<open>
  The theory embeds \<^verbatim>\<open>src/signature/{models,key_manager,document_signer,signature_verifier}.py\<close>.

  Conventions of the embedding.
  \<^item> Python \<^verbatim>\<open>bytes\<close> and \<^verbatim>\<open>str\<close> are both \<^typ>\<open>string\<close>: a \<^typ>\<open>char\<close> is one byte, and
    a \<^verbatim>\<open>str\<close> is represented by its UTF-8 encoding, so \<^verbatim>\<open>s.encode('utf-8')\<close> is the identity.
    A byte string that is not well-formed UTF-8 stands for a \<^verbatim>\<open>str\<close> that UTF-8 cannot
    encode (lone surrogates, as \<^verbatim>\<open>os.fsdecode\<close> produces them).
  \<^item> The file system, the clock, the entropy source and the record of which helper
    routines ran are one explicit \<open>world\<close> value that every operation takes and returns.
  \<^item> Every \<^verbatim>\<open>raise\<close> of the source or of a library is a value \<open>Inl e\<close>; the
    \<^verbatim>\<open>try/except Exception\<close> blocks of the source are the case distinctions that turn
    such a value into a result.
  \<^item> The RSA primitives of the \<^verbatim>\<open>cryptography\<close> package are a parameter \<open>L\<close> of the
    operations. SHA-256, hexadecimal coding, Base64/PEM armour and JSON text are
    written out, since results of the subsystem are defined in terms of them.
  \<^item> Standard output is part of the world: a \<^verbatim>\<open>print\<close> raises when the stream refuses
    the line (a character that its encoding lacks, a closed stream), and a function is
    modelled with the outcome of its call, \<open>Inr\<close> a returned value or \<open>Inl\<close> a raised
    exception, wherever the source has no handler that excludes the second.
\<close>

subsection \<open>SHA-256 (FIPS 180-4), as \<^verbatim>\<open>hashes.Hash(hashes.SHA256())\<close> computes it\<close>

text \<open>A 32-bit word is an \<^typ>\<open>int\<close> in \<open>[0, 2^32)\<close>; additions wrap around explicitly.\<close>

type_synonym u32 = int

type_synonym sha_state = "u32 \<times> u32 \<times> u32 \<times> u32 \<times> u32 \<times> u32 \<times> u32 \<times> u32"

definition add32 :: "u32 \<Rightarrow> u32 \<Rightarrow> u32" where
  "add32 a b = (a + b) mod 2 ^ 32"

definition rotr :: "nat \<Rightarrow> u32 \<Rightarrow> u32" where
  "rotr n x = (x div 2 ^ n) OR ((x mod 2 ^ n) * 2 ^ (32 - n))"

definition ch :: "u32 \<Rightarrow> u32 \<Rightarrow> u32 \<Rightarrow> u32" where
  "ch x y z = (x AND y) XOR ((x XOR 0xffffffff) AND z)"

definition maj :: "u32 \<Rightarrow> u32 \<Rightarrow> u32 \<Rightarrow> u32" where
  "maj x y z = (x AND y) XOR (x AND z) XOR (y AND z)"

definition bsig0 :: "u32 \<Rightarrow> u32" where
  "bsig0 x = rotr 2 x XOR rotr 13 x XOR rotr 22 x"

definition bsig1 :: "u32 \<Rightarrow> u32" where
  "bsig1 x = rotr 6 x XOR rotr 11 x XOR rotr 25 x"

definition ssig0 :: "u32 \<Rightarrow> u32" where
  "ssig0 x = rotr 7 x XOR rotr 18 x XOR (x div 2 ^ 3)"

definition ssig1 :: "u32 \<Rightarrow> u32" where
  "ssig1 x = rotr 17 x XOR rotr 19 x XOR (x div 2 ^ 10)"

definition K256 :: "u32 list" where
  "K256 =
    [0x428A2F98, 0x71374491, 0xB5C0FBCF, 0xE9B5DBA5, 0x3956C25B, 0x59F111F1, 0x923F82A4, 0xAB1C5ED5,
     0xD807AA98, 0x12835B01, 0x243185BE, 0x550C7DC3, 0x72BE5D74, 0x80DEB1FE, 0x9BDC06A7, 0xC19BF174,
     0xE49B69C1, 0xEFBE4786, 0x0FC19DC6, 0x240CA1CC, 0x2DE92C6F, 0x4A7484AA, 0x5CB0A9DC, 0x76F988DA,
     0x983E5152, 0xA831C66D, 0xB00327C8, 0xBF597FC7, 0xC6E00BF3, 0xD5A79147, 0x06CA6351, 0x14292967,
     0x27B70A85, 0x2E1B2138, 0x4D2C6DFC, 0x53380D13, 0x650A7354, 0x766A0ABB, 0x81C2C92E, 0x92722C85,
     0xA2BFE8A1, 0xA81A664B, 0xC24B8B70, 0xC76C51A3, 0xD192E819, 0xD6990624, 0xF40E3585, 0x106AA070,
     0x19A4C116, 0x1E376C08, 0x2748774C, 0x34B0BCB5, 0x391C0CB3, 0x4ED8AA4A, 0x5B9CCA4F, 0x682E6FF3,
     0x748F82EE, 0x78A5636F, 0x84C87814, 0x8CC70208, 0x90BEFFFA, 0xA4506CEB, 0xBEF9A3F7, 0xC67178F2]"

definition H256 :: sha_state where
  "H256 = (0x6A09E667, 0xBB67AE85, 0x3C6EF372, 0xA54FF53A,
           0x510E527F, 0x9B05688C, 0x1F83D9AB, 0x5BE0CD19)"

text \<open>The sixteen big-endian words of a 64-byte block.\<close>

fun be_words :: "string \<Rightarrow> u32 list" where
  "be_words (a # b # c # d # r) =
     (((of_char a * 256 + of_char b) * 256 + of_char c) * 256 + of_char d) # be_words r"
| "be_words _ = []"

text \<open>
  The message schedule is kept as a window of the last sixteen words: the head is the
  word of the current round, and the window slides by one word per round.
\<close>

definition next_window :: "u32 list \<Rightarrow> u32 list" where
  "next_window ws =
     tl ws @ [add32 (add32 (ssig1 (ws ! 14)) (ws ! 9)) (add32 (ssig0 (ws ! 1)) (ws ! 0))]"

definition step2 :: "u32 \<Rightarrow> u32 \<Rightarrow> sha_state \<Rightarrow> sha_state" where
  "step2 t1 t2 s =
     (case s of (a, b, c, d, e, f, g, h) \<Rightarrow> (add32 t1 t2, a, b, c, add32 d t1, e, f, g))"

definition step :: "u32 \<Rightarrow> u32 \<Rightarrow> sha_state \<Rightarrow> sha_state" where
  "step k w s =
     (case s of (a, b, c, d, e, f, g, h) \<Rightarrow>
        step2 (add32 (add32 (add32 h (bsig1 e)) (add32 (ch e f g) k)) w)
              (add32 (bsig0 a) (maj a b c)) s)"

fun rounds :: "u32 list \<Rightarrow> u32 list \<Rightarrow> sha_state \<Rightarrow> sha_state" where
  "rounds [] ws s = s"
| "rounds (k # ks) ws s = rounds ks (next_window ws) (step k (hd ws) s)"

definition add_state :: "sha_state \<Rightarrow> sha_state \<Rightarrow> sha_state" where
  "add_state s t =
     (case s of (a, b, c, d, e, f, g, h) \<Rightarrow>
      case t of (a', b', c', d', e', f', g', h') \<Rightarrow>
        (add32 a a', add32 b b', add32 c c', add32 d d',
         add32 e e', add32 f f', add32 g g', add32 h h'))"

definition compress :: "sha_state \<Rightarrow> string \<Rightarrow> sha_state" where
  "compress st blk = add_state st (rounds K256 (be_words blk) st)"

text \<open>\<open>be_bytes n v\<close>: the \<open>n\<close> low-order bytes of \<open>v\<close>, most significant first.\<close>

fun be_bytes :: "nat \<Rightarrow> int \<Rightarrow> string" where
  "be_bytes 0 v = []"
| "be_bytes (Suc n) v = be_bytes n (v div 256) @ [char_of v]"

definition sha_pad :: "string \<Rightarrow> string" where
  "sha_pad m =
     m @ CHR 0x80 # replicate ((119 - length m mod 64) mod 64) (CHR 0x00)
       @ be_bytes 8 (8 * int (length m))"

function blocks :: "sha_state \<Rightarrow> string \<Rightarrow> sha_state" where
  "blocks st m = (if m = [] then st else blocks (compress st (take 64 m)) (drop 64 m))"
  by pat_completeness auto
termination
  by (relation "measure (\<lambda>(st, m). length m)") auto

declare blocks.simps [simp del]

definition sha256 :: "string \<Rightarrow> string" where
  "sha256 m =
     (case blocks H256 (sha_pad m) of (a, b, c, d, e, f, g, h) \<Rightarrow>
        concat (map (be_bytes 4) [a, b, c, d, e, f, g, h]))"

subsection \<open>\<^verbatim>\<open>bytes.hex()\<close> and \<^verbatim>\<open>bytes.fromhex()\<close>\<close>

definition hexdigit :: "nat \<Rightarrow> char" where
  "hexdigit n = ''0123456789abcdef'' ! n"

definition hex :: "string \<Rightarrow> string" where
  "hex bs = concat (map (\<lambda>c. [hexdigit (of_char c div 16), hexdigit (of_char c mod 16)]) bs)"

definition hexval :: "char \<Rightarrow> nat option" where
  "hexval c =
     (let n = (of_char c :: nat) in
      if 48 \<le> n \<and> n \<le> 57 then Some (n - 48)
      else if 97 \<le> n \<and> n \<le> 102 then Some (n - 87)
      else if 65 \<le> n \<and> n \<le> 70 then Some (n - 55)
      else None)"

text \<open>ASCII whitespace, which \<^verbatim>\<open>bytes.fromhex\<close> skips between two bytes.\<close>

definition is_ascii_space :: "char \<Rightarrow> bool" where
  "is_ascii_space c \<longleftrightarrow> (of_char c :: nat) \<in> {32, 9, 10, 11, 12, 13}"

text \<open>\<open>None\<close> is the \<^verbatim>\<open>ValueError\<close> of \<^verbatim>\<open>bytes.fromhex\<close>.\<close>

fun fromhex :: "string \<Rightarrow> string option" where
  "fromhex [] = Some []"
| "fromhex [c] = (if is_ascii_space c then Some [] else None)"
| "fromhex (c # d # r) =
     (if is_ascii_space c then fromhex (d # r)
      else case (hexval c, hexval d) of
             (Some h, Some l) \<Rightarrow> map_option ((#) (char_of (16 * h + l))) (fromhex r)
           | _ \<Rightarrow> None)"

subsection \<open>Base64 and the PEM armour of \<^verbatim>\<open>public_bytes(Encoding.PEM, SubjectPublicKeyInfo)\<close>\<close>

definition b64char :: "nat \<Rightarrow> char" where
  "b64char n = ''ABCDEFGHIJKLMNOPQRSTUVWXYZabcdefghijklmnopqrstuvwxyz0123456789+/'' ! n"

fun b64encode :: "string \<Rightarrow> string" where
  "b64encode [] = []"
| "b64encode [a] =
     (let x = (of_char a :: nat)
      in [b64char (x div 4), b64char (x mod 4 * 16), CHR ''='', CHR ''=''])"
| "b64encode [a, b] =
     (let x = (of_char a :: nat); y = (of_char b :: nat)
      in [b64char (x div 4), b64char (x mod 4 * 16 + y div 16), b64char (y mod 16 * 4), CHR ''=''])"
| "b64encode (a # b # c # r) =
     (let x = (of_char a :: nat); y = (of_char b :: nat); z = (of_char c :: nat)
      in b64char (x div 4) # b64char (x mod 4 * 16 + y div 16)
         # b64char (y mod 16 * 4 + z div 64) # b64char (z mod 64) # b64encode r)"

text \<open>
  \<open>chunks n xs\<close> cuts \<open>xs\<close> into pieces of \<open>n\<close> elements (the last one may be shorter):
  the lines of a PEM body, and the successive results of \<^verbatim>\<open>f.read(n)\<close> on a file.
\<close>

function chunks :: "nat \<Rightarrow> 'a list \<Rightarrow> 'a list list" where
  "chunks n xs = (if n = 0 \<or> xs = [] then [] else take n xs # chunks n (drop n xs))"
  by pat_completeness auto
termination
  by (relation "measure (\<lambda>(n, xs). length xs)") auto

declare chunks.simps [simp del]

definition pem_encode :: "string \<Rightarrow> string \<Rightarrow> string" where
  "pem_encode label der =
     ''-----BEGIN '' @ label @ ''-----'' @ [CHR 0x0A]
     @ concat (map (\<lambda>l. l @ [CHR 0x0A]) (chunks 64 (b64encode der)))
     @ ''-----END '' @ label @ ''-----'' @ [CHR 0x0A]"

subsection \<open>UTF-8 text files\<close>

definition byte_in :: "char \<Rightarrow> nat \<Rightarrow> nat \<Rightarrow> bool" where
  "byte_in c lo hi \<longleftrightarrow> lo \<le> (of_char c :: nat) \<and> (of_char c :: nat) \<le> hi"

text \<open>
  Well-formed UTF-8 (Unicode, table 3-7): what \<^verbatim>\<open>open(path, 'r', encoding='utf-8')\<close>
  decodes without \<^verbatim>\<open>UnicodeDecodeError\<close>, and what a \<^verbatim>\<open>str\<close> encodes to.
\<close>

fun utf8_valid :: "string \<Rightarrow> bool" where
  "utf8_valid [] = True"
| "utf8_valid (a # r) =
     (if byte_in a 0x00 0x7F then utf8_valid r
      else if byte_in a 0xC2 0xDF then
        (case r of b # r1 \<Rightarrow> byte_in b 0x80 0xBF \<and> utf8_valid r1 | _ \<Rightarrow> False)
      else if byte_in a 0xE0 0xEF then
        (case r of
           b # c # r2 \<Rightarrow>
             byte_in b (if a = CHR 0xE0 then 0xA0 else 0x80) (if a = CHR 0xED then 0x9F else 0xBF)
             \<and> byte_in c 0x80 0xBF \<and> utf8_valid r2
         | _ \<Rightarrow> False)
      else if byte_in a 0xF0 0xF4 then
        (case r of
           b # c # d # r3 \<Rightarrow>
             byte_in b (if a = CHR 0xF0 then 0x90 else 0x80) (if a = CHR 0xF4 then 0x8F else 0xBF)
             \<and> byte_in c 0x80 0xBF \<and> byte_in d 0x80 0xBF \<and> utf8_valid r3
         | _ \<Rightarrow> False)
      else False)"

text \<open>The UTF-8 encoding of a code point; \<open>None\<close> for a surrogate or a value past U+10FFFF.\<close>

definition utf8_encode :: "nat \<Rightarrow> string option" where
  "utf8_encode cp =
     (if cp < 0x80 then Some [char_of cp]
      else if cp < 0x800 then Some [char_of (0xC0 + cp div 64), char_of (0x80 + cp mod 64)]
      else if 0xD800 \<le> cp \<and> cp \<le> 0xDFFF then None
      else if cp < 0x10000 then
        Some [char_of (0xE0 + cp div 4096), char_of (0x80 + cp div 64 mod 64),
              char_of (0x80 + cp mod 64)]
      else if cp < 0x110000 then
        Some [char_of (0xF0 + cp div 262144), char_of (0x80 + cp div 4096 mod 64),
              char_of (0x80 + cp div 64 mod 64), char_of (0x80 + cp mod 64)]
      else None)"

subsection \<open>JSON values, \<^verbatim>\<open>json.dump(obj, f, indent=2, ensure_ascii=False)\<close> and \<^verbatim>\<open>json.load\<close>\<close>

text \<open>
  A JSON object is an association list in insertion order, as a Python \<^verbatim>\<open>dict\<close> keeps
  it. Floating-point numbers are not represented: \<open>json_loads\<close> rejects a number with a
  fraction or an exponent, and \<^verbatim>\<open>NaN\<close> and \<^verbatim>\<open>Infinity\<close>.
\<close>

datatype json =
    JNull
  | JBool bool
  | JInt int
  | JStr string
  | JArr "json list"
  | JObj "(string \<times> json) list"

text \<open>\<^verbatim>\<open>d[k]\<close> and \<^verbatim>\<open>d.get(k)\<close> on a dict: with a repeated key the last entry counts.\<close>

definition dict_get :: "(string \<times> 'v) list \<Rightarrow> string \<Rightarrow> 'v option" where
  "dict_get d k = map_of (rev d) k"

text \<open>\<^verbatim>\<open>d[k] = v\<close>: an existing key keeps its position, a new key goes last.\<close>

definition dict_set :: "(string \<times> 'v) list \<Rightarrow> string \<Rightarrow> 'v \<Rightarrow> (string \<times> 'v) list" where
  "dict_set d k v =
     (if k \<in> fst ` set d then map (\<lambda>(k', v'). if k' = k then (k', v) else (k', v')) d
      else d @ [(k, v)])"

text \<open>\<^verbatim>\<open>{**a, **b}\<close>.\<close>

definition dict_update :: "(string \<times> 'v) list \<Rightarrow> (string \<times> 'v) list \<Rightarrow> (string \<times> 'v) list" where
  "dict_update a b = fold (\<lambda>(k, v) d. dict_set d k v) b a"

text \<open>Python truthiness of a decoded JSON value (\<^verbatim>\<open>if not signature_package\<close>).\<close>

fun truthy :: "json \<Rightarrow> bool" where
  "truthy JNull = False"
| "truthy (JBool b) = b"
| "truthy (JInt i) = (i \<noteq> 0)"
| "truthy (JStr s) = (s \<noteq> [])"
| "truthy (JArr xs) = (xs \<noteq> [])"
| "truthy (JObj kvs) = (kvs \<noteq> [])"

subsubsection \<open>Encoder\<close>

definition escape_char :: "char \<Rightarrow> string" where
  "escape_char c =
     (if c = CHR 0x22 then [CHR 0x5C, CHR 0x22]
      else if c = CHR 0x5C then [CHR 0x5C, CHR 0x5C]
      else if c = CHR 0x0A then [CHR 0x5C, CHR ''n'']
      else if c = CHR 0x0D then [CHR 0x5C, CHR ''r'']
      else if c = CHR 0x09 then [CHR 0x5C, CHR ''t'']
      else if c = CHR 0x08 then [CHR 0x5C, CHR ''b'']
      else if c = CHR 0x0C then [CHR 0x5C, CHR ''f'']
      else if (of_char c :: nat) < 0x20 then
        [CHR 0x5C, CHR ''u'', CHR ''0'', CHR ''0'',
         hexdigit (of_char c div 16), hexdigit (of_char c mod 16)]
      else [c])"

definition quote :: "string \<Rightarrow> string" where
  "quote s = CHR 0x22 # concat (map escape_char s) @ [CHR 0x22]"

definition digit_char :: "nat \<Rightarrow> char" where
  "digit_char n = char_of (48 + n)"

function show_nat :: "nat \<Rightarrow> string" where
  "show_nat n = (if n < 10 then [digit_char n] else show_nat (n div 10) @ [digit_char (n mod 10)])"
  by pat_completeness auto
termination
  by (relation "measure id") auto

declare show_nat.simps [simp del]

definition show_int :: "int \<Rightarrow> string" where
  "show_int i = (if i < 0 then CHR ''-'' # show_nat (nat (- i)) else show_nat (nat i))"

definition newline_indent :: "nat \<Rightarrow> string" where
  "newline_indent lvl = CHR 0x0A # replicate (2 * lvl) (CHR '' '')"

fun dumps :: "nat \<Rightarrow> json \<Rightarrow> string"
  and dumps_items :: "nat \<Rightarrow> json list \<Rightarrow> string"
  and dumps_members :: "nat \<Rightarrow> (string \<times> json) list \<Rightarrow> string" where
  "dumps lvl JNull = ''null''"
| "dumps lvl (JBool b) = (if b then ''true'' else ''false'')"
| "dumps lvl (JInt i) = show_int i"
| "dumps lvl (JStr s) = quote s"
| "dumps lvl (JArr []) = ''[]''"
| "dumps lvl (JArr (x # xs)) =
     ''['' @ newline_indent (Suc lvl) @ dumps (Suc lvl) x @ dumps_items (Suc lvl) xs
     @ newline_indent lvl @ '']''"
| "dumps lvl (JObj []) = ''{}''"
| "dumps lvl (JObj (kv # kvs)) =
     ''{'' @ newline_indent (Suc lvl) @ quote (fst kv) @ '': '' @ dumps (Suc lvl) (snd kv)
     @ dumps_members (Suc lvl) kvs @ newline_indent lvl @ ''}''"
| "dumps_items lvl [] = []"
| "dumps_items lvl (x # xs) = '','' @ newline_indent lvl @ dumps lvl x @ dumps_items lvl xs"
| "dumps_members lvl [] = []"
| "dumps_members lvl (kv # kvs) =
     '','' @ newline_indent lvl @ quote (fst kv) @ '': '' @ dumps lvl (snd kv)
     @ dumps_members lvl kvs"

definition json_dumps :: "json \<Rightarrow> string" where
  "json_dumps v = dumps 0 v"

subsubsection \<open>Decoder\<close>

definition is_json_ws :: "char \<Rightarrow> bool" where
  "is_json_ws c \<longleftrightarrow> c = CHR '' '' \<or> c = CHR 0x09 \<or> c = CHR 0x0A \<or> c = CHR 0x0D"

fun skip_ws :: "string \<Rightarrow> string" where
  "skip_ws [] = []"
| "skip_ws (c # cs) = (if is_json_ws c then skip_ws cs else c # cs)"

definition unescape :: "char \<Rightarrow> char option" where
  "unescape e =
     (if e = CHR 0x22 then Some (CHR 0x22)
      else if e = CHR 0x5C then Some (CHR 0x5C)
      else if e = CHR ''/'' then Some (CHR ''/'')
      else if e = CHR ''b'' then Some (CHR 0x08)
      else if e = CHR ''f'' then Some (CHR 0x0C)
      else if e = CHR ''n'' then Some (CHR 0x0A)
      else if e = CHR ''r'' then Some (CHR 0x0D)
      else if e = CHR ''t'' then Some (CHR 0x09)
      else None)"

text \<open>The value of four hexadecimal digits.\<close>

definition hex4 :: "char \<Rightarrow> char \<Rightarrow> char \<Rightarrow> char \<Rightarrow> nat option" where
  "hex4 a b c d =
     (case (hexval a, hexval b, hexval c, hexval d) of
        (Some x, Some y, Some z, Some w) \<Rightarrow> Some (((x * 16 + y) * 16 + z) * 16 + w)
      | _ \<Rightarrow> None)"

text \<open>
  \<open>scan_string cs\<close> reads a string literal whose opening quote has been consumed and
  returns its value and the text after the closing quote. As in the strict mode of the
  \<^verbatim>\<open>json\<close> module, a raw control character ends the scan with an error. A \<^verbatim>\<open>\uXXXX\<close>
  escape yields the UTF-8 bytes of its code point, two escapes that form a surrogate
  pair yield one code point, and a lone surrogate escape is an error here (Python
  keeps it in the \<^verbatim>\<open>str\<close>).
\<close>

fun scan_string :: "string \<Rightarrow> (string \<times> string) option" where
  "scan_string [] = None"
| "scan_string (c # cs) =
     (if c = CHR 0x22 then Some ([], cs)
      else if c = CHR 0x5C then
        (case cs of
           [] \<Rightarrow> None
         | e # r \<Rightarrow>
             if e = CHR ''u'' then
               (case r of
                  a # b # c' # d # r1 \<Rightarrow>
                    (case hex4 a b c' d of
                       None \<Rightarrow> None
                     | Some u \<Rightarrow>
                         if 0xD800 \<le> u \<and> u \<le> 0xDBFF then
                           (case r1 of
                              b1 # u1 # a2 # b2 # c2 # d2 # r2 \<Rightarrow>
                                if b1 = CHR 0x5C \<and> u1 = CHR ''u'' then
                                  (case hex4 a2 b2 c2 d2 of
                                     None \<Rightarrow> None
                                   | Some l \<Rightarrow>
                                       if 0xDC00 \<le> l \<and> l \<le> 0xDFFF then
                                         (case (utf8_encode (0x10000 + (u - 0xD800) * 1024 + (l - 0xDC00)),
                                                scan_string r2) of
                                            (Some bs, Some (s, rest)) \<Rightarrow> Some (bs @ s, rest)
                                          | _ \<Rightarrow> None)
                                       else None)
                                else None
                            | _ \<Rightarrow> None)
                         else
                           (case (utf8_encode u, scan_string r1) of
                              (Some bs, Some (s, rest)) \<Rightarrow> Some (bs @ s, rest)
                            | _ \<Rightarrow> None))
                | _ \<Rightarrow> None)
             else
               (case (unescape e, scan_string r) of
                  (Some x, Some (s, rest)) \<Rightarrow> Some (x # s, rest)
                | _ \<Rightarrow> None))
      else if (of_char c :: nat) < 0x20 then None
      else (case scan_string cs of Some (s, rest) \<Rightarrow> Some (c # s, rest) | None \<Rightarrow> None))"

definition is_digit :: "char \<Rightarrow> bool" where
  "is_digit c \<longleftrightarrow> byte_in c 48 57"

fun scan_digits :: "nat \<Rightarrow> string \<Rightarrow> nat \<times> string" where
  "scan_digits acc [] = (acc, [])"
| "scan_digits acc (c # cs) =
     (if is_digit c then scan_digits (acc * 10 + (of_char c - 48)) cs else (acc, c # cs))"

text \<open>
  The integer part of a number, \<^verbatim>\<open>-?(0|[1-9]\d*)\<close>, without its sign. A fraction or an
  exponent after it would make the number a float: that is refused.
\<close>

definition scan_nat :: "string \<Rightarrow> (nat \<times> string) option" where
  "scan_nat cs =
     (case cs of
        [] \<Rightarrow> None
      | c # r \<Rightarrow>
          if \<not> is_digit c then None
          else (let (n, rest) = (if c = CHR ''0'' then (0, r) else scan_digits 0 cs)
                in case rest of
                     [] \<Rightarrow> Some (n, rest)
                   | x # _ \<Rightarrow>
                       if x = CHR ''.'' \<or> x = CHR ''e'' \<or> x = CHR ''E'' then None
                       else Some (n, rest)))"

definition scan_number :: "string \<Rightarrow> (json \<times> string) option" where
  "scan_number cs =
     (case cs of
        [] \<Rightarrow> None
      | c # r \<Rightarrow>
          if c = CHR ''-'' then map_option (\<lambda>(n, rest). (JInt (- int n), rest)) (scan_nat r)
          else map_option (\<lambda>(n, rest). (JInt (int n), rest)) (scan_nat cs))"

text \<open>
  The recursive-descent decoder. The first argument bounds the nesting of calls; with
  the length of the text it never runs out on a text that is JSON (see
  \<open>json_loads_dumps\<close>). A caller skips white space before a value, as the scanner of the
  \<^verbatim>\<open>json\<close> module does.
\<close>

fun parse_value :: "nat \<Rightarrow> string \<Rightarrow> (json \<times> string) option"
  and parse_items :: "nat \<Rightarrow> string \<Rightarrow> (json list \<times> string) option"
  and parse_members :: "nat \<Rightarrow> string \<Rightarrow> ((string \<times> json) list \<times> string) option" where
  "parse_value 0 cs = None"
| "parse_value (Suc n) [] = None"
| "parse_value (Suc n) (c # r) =
     (if c = CHR 0x22 then
        (case scan_string r of None \<Rightarrow> None | Some (s, rest) \<Rightarrow> Some (JStr s, rest))
      else if c = CHR ''{'' then
        (case skip_ws r of
           [] \<Rightarrow> None
         | x # r1 \<Rightarrow>
             if x = CHR ''}'' then Some (JObj [], r1)
             else map_option (\<lambda>(kvs, rest). (JObj kvs, rest)) (parse_members n (x # r1)))
      else if c = CHR ''['' then
        (case skip_ws r of
           [] \<Rightarrow> None
         | x # r1 \<Rightarrow>
             if x = CHR '']'' then Some (JArr [], r1)
             else map_option (\<lambda>(xs, rest). (JArr xs, rest)) (parse_items n (x # r1)))
      else if take 4 (c # r) = ''null'' then Some (JNull, drop 4 (c # r))
      else if take 4 (c # r) = ''true'' then Some (JBool True, drop 4 (c # r))
      else if take 5 (c # r) = ''false'' then Some (JBool False, drop 5 (c # r))
      else scan_number (c # r))"
| "parse_items 0 cs = None"
| "parse_items (Suc n) cs =
     (case parse_value n cs of
        None \<Rightarrow> None
      | Some (v, r) \<Rightarrow>
          (case skip_ws r of
             [] \<Rightarrow> None
           | x # r1 \<Rightarrow>
               if x = CHR '']'' then Some ([v], r1)
               else if x = CHR '','' then
                 map_option (\<lambda>(vs, rest). (v # vs, rest)) (parse_items n (skip_ws r1))
               else None))"
| "parse_members 0 cs = None"
| "parse_members (Suc n) [] = None"
| "parse_members (Suc n) (q # r) =
     (if q \<noteq> CHR 0x22 then None
      else case scan_string r of
        None \<Rightarrow> None
      | Some (k, r1) \<Rightarrow>
          (case skip_ws r1 of
             [] \<Rightarrow> None
           | col # r2 \<Rightarrow>
               if col \<noteq> CHR '':'' then None
               else case parse_value n (skip_ws r2) of
                 None \<Rightarrow> None
               | Some (v, r3) \<Rightarrow>
                   (case skip_ws r3 of
                      [] \<Rightarrow> None
                    | x # r4 \<Rightarrow>
                        if x = CHR ''}'' then Some ([(k, v)], r4)
                        else if x = CHR '','' then
                          map_option (\<lambda>(kvs, rest). ((k, v) # kvs, rest))
                            (parse_members n (skip_ws r4))
                        else None)))"

text \<open>\<^verbatim>\<open>json.loads\<close>: one value, white space around it, nothing after it.\<close>

definition json_loads :: "string \<Rightarrow> json option" where
  "json_loads s =
     (case parse_value (Suc (length s)) (skip_ws s) of
        None \<Rightarrow> None
      | Some (v, rest) \<Rightarrow> if skip_ws rest = [] then Some v else None)"

section \<open>\<^verbatim>\<open>models.py\<close>\<close>

datatype DocumentType = TXT | PDF | ZIP

fun DocumentType_value :: "DocumentType \<Rightarrow> string" where
  "DocumentType_value TXT = ''txt''"
| "DocumentType_value PDF = ''pdf''"
| "DocumentType_value ZIP = ''zip''"

datatype SignatureStatus = VALID | INVALID | TAMPERED | EXPIRED | KEY_MISMATCH

subsection \<open>\<^verbatim>\<open>datetime\<close>\<close>

text \<open>
  A naive \<^verbatim>\<open>datetime\<close> is represented by the text that \<^verbatim>\<open>isoformat()\<close> prints for it,
  \<^verbatim>\<open>YYYY-MM-DDTHH:MM:SS\<close> followed by \<^verbatim>\<open>.ffffff\<close> when the microseconds are not zero.
  \<open>fromisoformat\<close> accepts these two forms (and the second one with zero microseconds);
  the further forms that the Python versions accept are refused.
\<close>

datatype datetime = DateTime (isoformat: string)

definition num_of :: "string \<Rightarrow> nat" where
  "num_of ds = fst (scan_digits 0 ds)"

definition days_in_month :: "nat \<Rightarrow> nat \<Rightarrow> nat" where
  "days_in_month y m =
     (if m = 2 then (if y mod 4 = 0 \<and> (y mod 100 \<noteq> 0 \<or> y mod 400 = 0) then 29 else 28)
      else if m \<in> {4, 6, 9, 11} then 30 else 31)"

definition iso_wf :: "string \<Rightarrow> bool" where
  "iso_wf s \<longleftrightarrow>
     (length s = 19 \<or> (length s = 26 \<and> s ! 19 = CHR ''.'' \<and> list_all is_digit (drop 20 s)))
     \<and> list_all is_digit (take 4 s) \<and> s ! 4 = CHR ''-''
     \<and> list_all is_digit (take 2 (drop 5 s)) \<and> s ! 7 = CHR ''-''
     \<and> list_all is_digit (take 2 (drop 8 s)) \<and> s ! 10 = CHR ''T''
     \<and> list_all is_digit (take 2 (drop 11 s)) \<and> s ! 13 = CHR '':''
     \<and> list_all is_digit (take 2 (drop 14 s)) \<and> s ! 16 = CHR '':''
     \<and> list_all is_digit (take 2 (drop 17 s))
     \<and> 1 \<le> num_of (take 4 s)
     \<and> 1 \<le> num_of (take 2 (drop 5 s)) \<and> num_of (take 2 (drop 5 s)) \<le> 12
     \<and> 1 \<le> num_of (take 2 (drop 8 s))
     \<and> num_of (take 2 (drop 8 s)) \<le> days_in_month (num_of (take 4 s)) (num_of (take 2 (drop 5 s)))
     \<and> num_of (take 2 (drop 11 s)) < 24
     \<and> num_of (take 2 (drop 14 s)) < 60
     \<and> num_of (take 2 (drop 17 s)) < 60"

text \<open>\<open>None\<close> is the \<^verbatim>\<open>ValueError\<close> of \<^verbatim>\<open>datetime.fromisoformat\<close>.\<close>

definition fromisoformat :: "string \<Rightarrow> datetime option" where
  "fromisoformat s =
     (if iso_wf s then Some (DateTime (if drop 19 s = ''.000000'' then take 19 s else s))
      else None)"

subsection \<open>Exceptions\<close>

text \<open>
  The exceptions that the steps of the subsystem raise. \<open>CryptoError\<close> is an exception of
  the \<^verbatim>\<open>cryptography\<close> package, \<open>JSONDecodeError\<close> the one of \<^verbatim>\<open>json.load\<close>, and
  \<open>StdoutError\<close> the one of a \<^verbatim>\<open>print\<close> whose line the standard output refuses (in Python
  a \<^verbatim>\<open>UnicodeEncodeError\<close>, or the error of a closed stream).
\<close>

datatype exn =
    FileNotFoundError string
  | IsADirectoryError string
  | PermissionError string
  | UnicodeDecodeError
  | UnicodeEncodeError
  | KeyError string
  | TypeError
  | ValueError
  | AttributeError
  | CryptoError
  | JSONDecodeError
  | StdoutError

definition bindE :: "exn + 'a \<Rightarrow> ('a \<Rightarrow> exn + 'b) \<Rightarrow> exn + 'b" where
  "bindE m f = (case m of Inl e \<Rightarrow> Inl e | Inr x \<Rightarrow> f x)"

subsection \<open>\<^verbatim>\<open>SignatureMetadata\<close>\<close>

text \<open>
  The dataclass does not check the types of its fields, and \<open>from_dict\<close> stores what the
  JSON document holds: every field but the date is a JSON value.
\<close>

record SignatureMetadata =
  signer_name :: json
  signer_email :: json
  signature_date :: datetime
  document_hash :: json
  signature_algorithm :: json
  key_fingerprint :: json
  additional_info :: json

definition to_dict :: "SignatureMetadata \<Rightarrow> json" where
  "to_dict self =
     JObj [(''signer_name'', signer_name self),
           (''signer_email'', signer_email self),
           (''signature_date'', JStr (isoformat (signature_date self))),
           (''document_hash'', document_hash self),
           (''signature_algorithm'', signature_algorithm self),
           (''key_fingerprint'', key_fingerprint self),
           (''additional_info'', additional_info self)]"

text \<open>\<^verbatim>\<open>data[key]\<close>: \<^verbatim>\<open>KeyError\<close> on a dict without the key, \<^verbatim>\<open>TypeError\<close> on anything else.\<close>

definition getitem :: "json \<Rightarrow> string \<Rightarrow> exn + json" where
  "getitem data k =
     (case data of
        JObj d \<Rightarrow> (case dict_get d k of None \<Rightarrow> Inl (KeyError k) | Some v \<Rightarrow> Inr v)
      | _ \<Rightarrow> Inl TypeError)"

text \<open>\<^verbatim>\<open>data.get(key, default)\<close> on a dict.\<close>

definition get_default :: "json \<Rightarrow> string \<Rightarrow> json \<Rightarrow> json" where
  "get_default data k dflt =
     (case data of
        JObj d \<Rightarrow> (case dict_get d k of None \<Rightarrow> dflt | Some v \<Rightarrow> v)
      | _ \<Rightarrow> dflt)"

definition datetime_fromisoformat :: "json \<Rightarrow> exn + datetime" where
  "datetime_fromisoformat v =
     (case v of
        JStr s \<Rightarrow> (case fromisoformat s of None \<Rightarrow> Inl ValueError | Some t \<Rightarrow> Inr t)
      | _ \<Rightarrow> Inl TypeError)"

definition from_dict :: "json \<Rightarrow> exn + SignatureMetadata" where
  "from_dict data =
     bindE (getitem data ''signer_name'') (\<lambda>name.
     bindE (getitem data ''signer_email'') (\<lambda>email.
     bindE (getitem data ''signature_date'') (\<lambda>date_text.
     bindE (datetime_fromisoformat date_text) (\<lambda>date.
     bindE (getitem data ''document_hash'') (\<lambda>h.
       Inr \<lparr> signer_name = name,
             signer_email = email,
             signature_date = date,
             document_hash = h,
             signature_algorithm =
               get_default data ''signature_algorithm'' (JStr ''RSA-PSS with SHA-256''),
             key_fingerprint = get_default data ''key_fingerprint'' JNull,
             additional_info = get_default data ''additional_info'' (JObj []) \<rparr>)))))"

subsection \<open>\<^verbatim>\<open>SignatureResult\<close>\<close>

text \<open>
  The texts of \<^verbatim>\<open>message\<close> and \<^verbatim>\<open>error\<close> are enumerated; a constructor is named after
  the text it stands for.
\<close>

datatype message =
    Documento_no_encontrado
  | Tipo_de_documento_no_soportado
  | Documento_firmado_exitosamente
  | Error_al_firmar_documento
  | Documento_firmado_no_encontrado
  | Documento_original_no_encontrado
  | No_se_pudo_cargar_el_archivo_de_firma
  | No_se_pudo_cargar_la_clave_publica
  | No_hay_clave_publica_disponible
  | El_documento_ha_sido_modificado_despues_de_la_firma
  | Firma_valida
  | Firma_invalida
  | Error_al_verificar_documento

datatype error_text =
    El_archivo_no_existe string
  | Solo_se_soportan_archivos_txt_pdf_zip
  | El_archivo_de_firma_es_invalido_o_esta_corrupto
  | Error_al_cargar_la_clave_publica_proporcionada
  | Se_requiere_una_clave_publica_para_verificar_la_firma
  | El_hash_del_documento_no_coincide_con_el_hash_firmado
  | La_firma_digital_no_pudo_ser_verificada
  | Str exn

record SignatureResult =
  success :: bool
  message :: message
  status :: "SignatureStatus option"
  metadata :: "SignatureMetadata option"
  signature_data :: "string option"
  signed_file_path :: "string option"
  error :: "error_text option"

text \<open>
  \<^verbatim>\<open>SignatureResult(success=..., message=...)\<close> with every other field at its default
  \<^verbatim>\<open>None\<close>; the call sites below update the fields they pass.
\<close>

definition SignatureResult_init :: "bool \<Rightarrow> message \<Rightarrow> SignatureResult" where
  "SignatureResult_init ok msg =
     \<lparr> success = ok, message = msg, status = None, metadata = None,
       signature_data = None, signed_file_path = None, error = None \<rparr>"

subsection \<open>Requests\<close>

record SignatureRequest =
  document_path :: string
  req_signer_name :: string
  req_signer_email :: string
  output_path :: "string option"
  req_additional_info :: "(string \<times> json) list"

record VerificationRequest =
  signed_document_path :: string
  original_document_path :: "string option"
  public_key_path :: "string option"

text \<open>Truthiness of an optional \<^verbatim>\<open>str\<close>: \<^verbatim>\<open>None\<close> and the empty string are false.\<close>

definition truthy_path :: "string option \<Rightarrow> bool" where
  "truthy_path p = (case p of None \<Rightarrow> False | Some s \<Rightarrow> s \<noteq> [])"

section \<open>The world: file system, clock, entropy, standard output, helper calls\<close>

datatype node = Regular string | Directory

text \<open>Which helper routine was entered, with the path it was given.\<close>

datatype call =
    Calculate_document_hash string
  | Create_signature
  | Save_signature string
  | Load_signature_file string
  | Verify_signature
  | Load_public_key string
  | Load_private_key string

text \<open>
  The lines that the subsystem prints, one constructor for each \<^verbatim>\<open>print\<close> statement of
  the source, with the values that the statement formats into its text:
  \<^item> \<open>Error_archivo_no_encontrado p\<close>: \<^verbatim>\<open>Error: Archivo no encontrado: {p}\<close>;
  \<^item> \<open>Clave_privada_cargada_desde p\<close>, \<open>Clave_publica_cargada_desde p\<close>:
    \<^verbatim>\<open>Clave privada cargada desde: {p}\<close> and its public twin;
  \<^item> \<open>Error_al_cargar_clave_privada e\<close>, \<open>Error_al_cargar_clave_publica e\<close>:
    \<^verbatim>\<open>Error al cargar clave privada: {e}\<close> and its public twin;
  \<^item> \<open>Firma_guardada_en p\<close>: \<^verbatim>\<open>Firma guardada en: {p}\<close>;
  \<^item> \<open>Firmando_documentos n\<close>: \<^verbatim>\<open>Firmando {n} documentos...\<close>;
    \<open>Firmando i n p\<close>: \<^verbatim>\<open>[{i}/{n}] Firmando: {p}\<close>;
  \<^item> \<open>Firmado_exitosamente\<close>: a check mark (U+2713) and \<^verbatim>\<open>Firmado exitosamente\<close>;
    \<open>Error_de_firma err\<close>: a ballot cross (U+2717) and \<^verbatim>\<open>Error: {result.error}\<close>;
  \<^item> \<open>Separador_nl\<close>, \<open>Separador\<close>: sixty \<^verbatim>\<open>=\<close>, with and without a leading newline;
  \<^item> \<open>Resumen_firmados k n\<close>: \<^verbatim>\<open>Resumen: {k}/{n} documentos firmados exitosamente\<close>;
  \<^item> \<open>Error_archivo_de_firma_no_encontrado p\<close>:
    \<^verbatim>\<open>Error: Archivo de firma no encontrado: {p}\<close>;
  \<^item> \<open>Error_al_cargar_archivo_de_firma e\<close>: \<^verbatim>\<open>Error al cargar archivo de firma: {e}\<close>;
  \<^item> \<open>Error_al_verificar_firma e\<close>: \<^verbatim>\<open>Error al verificar firma: {e}\<close>;
  \<^item> \<open>Verificando_documentos n\<close>, \<open>Verificando i n p\<close>: as for signing;
  \<^item> \<open>Resultado ok msg\<close>: the check mark when \<open>ok\<close>, else the cross, and \<^verbatim>\<open>{result.message}\<close>;
  \<^item> \<open>Firmante name email\<close>: \<^verbatim>\<open>Firmante: {name} ({email})\<close>; \<open>Fecha d\<close>: \<^verbatim>\<open>Fecha: {d}\<close>;
  \<^item> \<open>Resumen_validas k n\<close>: \<^verbatim>\<open>Resumen: {k}/{n} firmas validas\<close>.
\<close>

datatype line =
    Error_archivo_no_encontrado string
  | Clave_privada_cargada_desde string
  | Error_al_cargar_clave_privada exn
  | Clave_publica_cargada_desde string
  | Error_al_cargar_clave_publica exn
  | Firma_guardada_en string
  | Firmando_documentos nat
  | Firmando nat nat string
  | Firmado_exitosamente
  | Error_de_firma "error_text option"
  | Separador_nl
  | Separador
  | Resumen_firmados nat nat
  | Error_archivo_de_firma_no_encontrado string
  | Error_al_cargar_archivo_de_firma exn
  | Error_al_verificar_firma exn
  | Verificando_documentos nat
  | Verificando nat nat string
  | Resultado bool message
  | Firmante json json
  | Fecha datetime
  | Resumen_validas nat nat

text \<open>
  \<open>files\<close> resolves a path to what is there; two paths are the same file only if they
  are the same string. \<open>unreadable\<close> and \<open>unwritable\<close> are the paths that \<^verbatim>\<open>open\<close> refuses
  for reading and for writing (permissions, a missing parent directory). \<open>flushed\<close> is
  the part of a text that reaches the file when a later part of it cannot be encoded.
  \<open>clock\<close> and \<open>entropy\<close> are the successive answers of \<^verbatim>\<open>datetime.now()\<close> and of the
  random generator behind an RSA-PSS salt; \<open>ticks\<close> and \<open>draws\<close> count the answers taken.
  \<open>stdout_accepts\<close> tells which lines \<^verbatim>\<open>print\<close> writes without raising: a stream
  encoded in UTF-8 takes every line whose text is a \<^verbatim>\<open>str\<close> without lone surrogates, a
  stream encoded in cp1252 takes none that holds the check mark or the cross, a closed
  stream takes none.
\<close>

record world =
  files :: "string \<Rightarrow> node option"
  unreadable :: "string set"
  unwritable :: "string set"
  flushed :: "string \<Rightarrow> string"
  clock :: "nat \<Rightarrow> datetime"
  ticks :: nat
  entropy :: "nat \<Rightarrow> string"
  draws :: nat
  stdout_accepts :: "line \<Rightarrow> bool"
  calls :: "call list"

definition enter :: "call \<Rightarrow> world \<Rightarrow> world" where
  "enter c w = w\<lparr>calls := calls w @ [c]\<rparr>"

text \<open>\<^verbatim>\<open>print(l)\<close>: \<open>Inl StdoutError\<close> is the exception of a refused line.\<close>

definition print_line :: "world \<Rightarrow> line \<Rightarrow> exn + unit" where
  "print_line w l = (if stdout_accepts w l then Inr () else Inl StdoutError)"

text \<open>\<^verbatim>\<open>os.path.exists\<close>.\<close>

definition path_exists :: "world \<Rightarrow> string \<Rightarrow> bool" where
  "path_exists w p \<longleftrightarrow> files w p \<noteq> None"

text \<open>\<^verbatim>\<open>open(p, 'rb').read()\<close>.\<close>

definition read_bytes :: "world \<Rightarrow> string \<Rightarrow> exn + string" where
  "read_bytes w p =
     (case files w p of
        None \<Rightarrow> Inl (FileNotFoundError p)
      | Some Directory \<Rightarrow> Inl (IsADirectoryError p)
      | Some (Regular bs) \<Rightarrow> if p \<in> unreadable w then Inl (PermissionError p) else Inr bs)"

text \<open>\<^verbatim>\<open>open(p, 'r', encoding='utf-8').read()\<close>.\<close>

definition read_text :: "world \<Rightarrow> string \<Rightarrow> exn + string" where
  "read_text w p =
     bindE (read_bytes w p) (\<lambda>bs. if utf8_valid bs then Inr bs else Inl UnicodeDecodeError)"

text \<open>
  \<^verbatim>\<open>open(p, 'w', encoding='utf-8')\<close> followed by writing \<open>txt\<close>. When \<^verbatim>\<open>open\<close> raises, the
  file system is as it was. A text that cannot be encoded raises after the file has been
  created or truncated: the file is left with the part that was flushed.
\<close>

definition write_text :: "world \<Rightarrow> string \<Rightarrow> string \<Rightarrow> (exn + unit) \<times> world" where
  "write_text w p txt =
     (if files w p = Some Directory then (Inl (IsADirectoryError p), w)
      else if p \<in> unwritable w then (Inl (PermissionError p), w)
      else if \<not> utf8_valid txt then
        (Inl UnicodeEncodeError, w\<lparr>files := (files w)(p \<mapsto> Regular (flushed w txt))\<rparr>)
      else (Inr (), w\<lparr>files := (files w)(p \<mapsto> Regular txt)\<rparr>))"

text \<open>\<^verbatim>\<open>datetime.now()\<close>.\<close>

definition datetime_now :: "world \<Rightarrow> datetime \<times> world" where
  "datetime_now w = (clock w (ticks w), w\<lparr>ticks := Suc (ticks w)\<rparr>)"

section \<open>The \<^verbatim>\<open>cryptography\<close> package\<close>

text \<open>
  A public key is represented by its DER-encoded SubjectPublicKeyInfo, a private key by
  its DER-encoded PKCS8 structure. What the package computes with them is a parameter:
  PEM parsing (\<open>None\<close>: the loader raised), the public key of a private key, RSA-PSS
  signing with MGF1-SHA256 and maximal salt (\<open>None\<close>: \<^verbatim>\<open>sign\<close> raised), and RSA-PSS
  verification (\<open>Inr True\<close>: \<^verbatim>\<open>verify\<close> returned; \<open>Inr False\<close>: it raised
  \<^verbatim>\<open>InvalidSignature\<close>; \<open>Inl e\<close>: it raised another exception).
\<close>

datatype public_key = PublicKey (spki_der: string)

datatype private_key = PrivateKey (pkcs8_der: string)

record crypto =
  load_pem_private_key :: "string \<Rightarrow> string option \<Rightarrow> private_key option"
  load_pem_public_key :: "string \<Rightarrow> public_key option"
  public_key_of :: "private_key \<Rightarrow> public_key"
  pss_sign :: "private_key \<Rightarrow> string \<Rightarrow> string \<Rightarrow> string option"
  pss_verify :: "public_key \<Rightarrow> string \<Rightarrow> string \<Rightarrow> exn + bool"

text \<open>\<^verbatim>\<open>key.public_bytes(Encoding.PEM, PublicFormat.SubjectPublicKeyInfo)\<close>.\<close>

definition public_bytes_pem :: "public_key \<Rightarrow> string" where
  "public_bytes_pem k = pem_encode ''PUBLIC KEY'' (spki_der k)"

section \<open>\<^verbatim>\<open>key_manager.py\<close>\<close>

record KeyManager =
  key_size :: nat
  private_key :: "private_key option"
  public_key :: "public_key option"

definition KeyManager_init :: "nat \<Rightarrow> exn + KeyManager" where
  "KeyManager_init n =
     (if n \<notin> {2048, 3072, 4096} then Inl ValueError
      else Inr \<lparr> key_size = n, private_key = None, public_key = None \<rparr>)"

text \<open>
  \<open>load_private_key\<close> and \<open>load_public_key\<close>: the outcome of the call, the manager and
  the world. The \<^verbatim>\<open>except Exception as e\<close> branch prints and returns \<^verbatim>\<open>None\<close>; when that
  \<^verbatim>\<open>print\<close> raises, the call raises. The manager that the branch sees is the one the
  \<^verbatim>\<open>try\<close> block has left: a key assigned before a failing \<^verbatim>\<open>print\<close> stays assigned.
\<close>

definition load_private_key_except ::
  "KeyManager \<Rightarrow> world \<Rightarrow> exn \<Rightarrow> (exn + private_key option) \<times> KeyManager \<times> world" where
  "load_private_key_except self w e =
     (case print_line w (Error_al_cargar_clave_privada e) of
        Inl e' \<Rightarrow> (Inl e', self, w)
      | Inr u \<Rightarrow> (Inr None, self, w))"

definition load_private_key ::
  "crypto \<Rightarrow> KeyManager \<Rightarrow> world \<Rightarrow> string \<Rightarrow> string option
     \<Rightarrow> (exn + private_key option) \<times> KeyManager \<times> world" where
  "load_private_key L self w0 filepath password =
     (let w = enter (Load_private_key filepath) w0 in
      if \<not> path_exists w filepath then
        (case print_line w (Error_archivo_no_encontrado filepath) of
           Inl e \<Rightarrow> load_private_key_except self w e
         | Inr u \<Rightarrow> (Inr None, self, w))
      else case read_bytes w filepath of
        Inl e \<Rightarrow> load_private_key_except self w e
      | Inr pem_data \<Rightarrow>
          (case load_pem_private_key L pem_data password of
             None \<Rightarrow> load_private_key_except self w ValueError
           | Some k \<Rightarrow>
               (let self' = self\<lparr>private_key := Some k, public_key := Some (public_key_of L k)\<rparr>
                in case print_line w (Clave_privada_cargada_desde filepath) of
                     Inl e \<Rightarrow> load_private_key_except self' w e
                   | Inr u \<Rightarrow> (Inr (Some k), self', w))))"

definition load_public_key_except ::
  "KeyManager \<Rightarrow> world \<Rightarrow> exn \<Rightarrow> (exn + public_key option) \<times> KeyManager \<times> world" where
  "load_public_key_except self w e =
     (case print_line w (Error_al_cargar_clave_publica e) of
        Inl e' \<Rightarrow> (Inl e', self, w)
      | Inr u \<Rightarrow> (Inr None, self, w))"

definition load_public_key ::
  "crypto \<Rightarrow> KeyManager \<Rightarrow> world \<Rightarrow> string
     \<Rightarrow> (exn + public_key option) \<times> KeyManager \<times> world" where
  "load_public_key L self w0 filepath =
     (let w = enter (Load_public_key filepath) w0 in
      if \<not> path_exists w filepath then
        (case print_line w (Error_archivo_no_encontrado filepath) of
           Inl e \<Rightarrow> load_public_key_except self w e
         | Inr u \<Rightarrow> (Inr None, self, w))
      else case read_bytes w filepath of
        Inl e \<Rightarrow> load_public_key_except self w e
      | Inr pem_data \<Rightarrow>
          (case load_pem_public_key L pem_data of
             None \<Rightarrow> load_public_key_except self w ValueError
           | Some k \<Rightarrow>
               (let self' = self\<lparr>public_key := Some k\<rparr>
                in case print_line w (Clave_publica_cargada_desde filepath) of
                     Inl e \<Rightarrow> load_public_key_except self' w e
                   | Inr u \<Rightarrow> (Inr (Some k), self', w))))"

definition get_public_key_fingerprint :: "KeyManager \<Rightarrow> string option" where
  "get_public_key_fingerprint self =
     (case public_key self of
        None \<Rightarrow> None
      | Some k \<Rightarrow> Some (hex (sha256 (public_bytes_pem k))))"

definition verify_key_files_exist :: "world \<Rightarrow> string \<Rightarrow> string \<Rightarrow> bool" where
  "verify_key_files_exist w private_key_path public_path \<longleftrightarrow>
     path_exists w private_key_path \<and> path_exists w public_path"

section \<open>\<^verbatim>\<open>pathlib\<close> and \<^verbatim>\<open>str\<close> helpers\<close>

fun split_path :: "string \<Rightarrow> string list" where
  "split_path [] = [[]]"
| "split_path (c # cs) =
     (if c = CHR ''/'' then [] # split_path cs
      else case split_path cs of x # xs \<Rightarrow> (c # x) # xs | [] \<Rightarrow> [[c]])"

text \<open>
  \<^verbatim>\<open>Path(p).name\<close> for a POSIX path: the last component that is neither empty nor
  \<^verbatim>\<open>.\<close>, or the empty string.
\<close>

definition path_name :: "string \<Rightarrow> string" where
  "path_name p =
     (case filter (\<lambda>c. c \<noteq> [] \<and> c \<noteq> ''.'') (split_path p) of
        [] \<Rightarrow> []
      | cs \<Rightarrow> last cs)"

text \<open>\<^verbatim>\<open>s.rfind(c)\<close>.\<close>

definition rfind :: "string \<Rightarrow> char \<Rightarrow> int" where
  "rfind s c =
     (if c \<in> set s then int (length s) - 1 - int (length (takeWhile (\<lambda>x. x \<noteq> c) (rev s)))
      else - 1)"

text \<open>
  \<^verbatim>\<open>Path(p).suffix\<close> (Python up to 3.13):
  \<^verbatim>\<open>i = name.rfind('.'); return name[i:] if 0 < i < len(name) - 1 else ''\<close>.
\<close>

definition path_suffix :: "string \<Rightarrow> string" where
  "path_suffix p =
     (let name = path_name p; i = rfind name (CHR ''.'')
      in if 0 < i \<and> i < int (length name) - 1 then drop (nat i) name else [])"

text \<open>
  \<^verbatim>\<open>str.lower\<close>, on the ASCII letters. A character outside ASCII is left as it is: no
  such character becomes one of the letters of \<^verbatim>\<open>.txt\<close>, \<^verbatim>\<open>.pdf\<close>, \<^verbatim>\<open>.zip\<close> in lower case.
\<close>

definition lower_char :: "char \<Rightarrow> char" where
  "lower_char c = (if byte_in c 65 90 then char_of ((of_char c :: nat) + 32) else c)"

definition lower :: "string \<Rightarrow> string" where
  "lower s = map lower_char s"

text \<open>\<^verbatim>\<open>s.endswith(suffix)\<close>.\<close>

definition endswith :: "string \<Rightarrow> string \<Rightarrow> bool" where
  "endswith s suf \<longleftrightarrow> length suf \<le> length s \<and> drop (length s - length suf) s = suf"

section \<open>\<^verbatim>\<open>document_signer.py\<close>\<close>

text \<open>
  The methods of \<^verbatim>\<open>DocumentSigner\<close> read one attribute of \<^verbatim>\<open>self\<close>, the key manager:
  \<open>self\<close> is that \<^typ>\<open>KeyManager\<close>.
\<close>

text \<open>
  The \<^verbatim>\<open>Hash\<close> object is the concatenation of the chunks it was fed; \<^verbatim>\<open>finalize()\<close> is
  SHA-256 of it.
\<close>

definition hash_update :: "string \<Rightarrow> string \<Rightarrow> string" where
  "hash_update chunk hash_obj = hash_obj @ chunk"

definition hash_finalize :: "string \<Rightarrow> string" where
  "hash_finalize hash_obj = sha256 hash_obj"

text \<open>\<^verbatim>\<open>DocumentSigner._calculate_document_hash\<close>: the file is read in chunks of 8192 bytes.\<close>

definition calculate_document_hash :: "world \<Rightarrow> string \<Rightarrow> (exn + string) \<times> world" where
  "calculate_document_hash w0 file_path =
     (let w = enter (Calculate_document_hash file_path) w0 in
      case read_bytes w file_path of
        Inl e \<Rightarrow> (Inl e, w)
      | Inr bs \<Rightarrow> (Inr (hex (hash_finalize (fold hash_update (chunks 8192 bs) []))), w))"

text \<open>
  \<^verbatim>\<open>DocumentSigner._create_signature\<close>. Without a private key the attribute access
  raises \<^verbatim>\<open>AttributeError\<close>. The salt of the signature comes from the entropy source.
\<close>

definition create_signature ::
  "crypto \<Rightarrow> KeyManager \<Rightarrow> world \<Rightarrow> string \<Rightarrow> (exn + string) \<times> world" where
  "create_signature L self w0 doc_hash =
     (let w = enter Create_signature w0 in
      case private_key self of
        None \<Rightarrow> (Inl AttributeError, w)
      | Some k \<Rightarrow>
          (let w' = w\<lparr>draws := Suc (draws w)\<rparr> in
           case pss_sign L k (entropy w (draws w)) doc_hash of
             None \<Rightarrow> (Inl CryptoError, w')
           | Some sig \<Rightarrow> (Inr sig, w')))"

definition get_signature_file_path :: "string \<Rightarrow> string" where
  "get_signature_file_path doc_path = doc_path @ ''.sig''"

definition detect_document_type :: "string \<Rightarrow> DocumentType option" where
  "detect_document_type file_path =
     (let extension = lower (path_suffix file_path)
      in if extension = ''.txt'' then Some TXT
         else if extension = ''.pdf'' then Some PDF
         else if extension = ''.zip'' then Some ZIP
         else None)"

text \<open>The dict that \<open>_save_signature\<close> dumps.\<close>

definition signature_package :: "string \<Rightarrow> SignatureMetadata \<Rightarrow> json" where
  "signature_package sig meta = JObj [(''signature'', JStr (hex sig)), (''metadata'', to_dict meta)]"

text \<open>\<open>_save_signature\<close>: the file is written, then its path is printed.\<close>

definition save_signature ::
  "world \<Rightarrow> string \<Rightarrow> string \<Rightarrow> SignatureMetadata \<Rightarrow> (exn + unit) \<times> world" where
  "save_signature w0 signature_file_path sig meta =
     (let w = enter (Save_signature signature_file_path) w0
      in case write_text w signature_file_path (json_dumps (signature_package sig meta)) of
           (Inl e, w') \<Rightarrow> (Inl e, w')
         | (Inr u, w') \<Rightarrow> (print_line w' (Firma_guardada_en signature_file_path), w'))"

text \<open>
  \<open>sign_document\<close> is written as a chain: each definition is the rest of the \<^verbatim>\<open>try\<close> block
  from one comment of the source to the end, and is named after the step it starts with.
  A link of the chain yields \<open>Inr\<close> the result that the block returns, or \<open>Inl\<close> the
  exception that a statement of the block raises.
\<close>

text \<open>\<^verbatim>\<open># Guardar firma y metadatos\<close>, and the result of a successful signing.\<close>

definition sign_document_save ::
  "world \<Rightarrow> SignatureRequest \<Rightarrow> SignatureMetadata \<Rightarrow> string
     \<Rightarrow> (exn + SignatureResult) \<times> world" where
  "sign_document_save w request meta sig =
     (let signature_file_path =
        (if truthy_path (output_path request)
         then (case output_path request of Some p \<Rightarrow> p | None \<Rightarrow> [])
         else get_signature_file_path (document_path request))
      in case save_signature w signature_file_path sig meta of
           (Inl e, w') \<Rightarrow> (Inl e, w')
         | (Inr u, w') \<Rightarrow>
             (Inr ((SignatureResult_init True Documento_firmado_exitosamente)
                \<lparr>status := Some VALID,
                 metadata := Some meta,
                 signature_data := Some sig,
                 signed_file_path := Some signature_file_path\<rparr>), w'))"

text \<open>\<^verbatim>\<open># Crear firma digital\<close>.\<close>

definition sign_document_sign ::
  "crypto \<Rightarrow> KeyManager \<Rightarrow> world \<Rightarrow> SignatureRequest \<Rightarrow> SignatureMetadata \<Rightarrow> string
     \<Rightarrow> (exn + SignatureResult) \<times> world" where
  "sign_document_sign L self w request meta doc_hash =
     (case create_signature L self w doc_hash of
        (Inl e, w') \<Rightarrow> (Inl e, w')
      | (Inr sig, w') \<Rightarrow> sign_document_save w' request meta sig)"

text \<open>\<^verbatim>\<open># Crear metadatos de firma\<close>: the \<^verbatim>\<open>SignatureMetadata(...)\<close> of the source.\<close>

definition sign_metadata ::
  "KeyManager \<Rightarrow> SignatureRequest \<Rightarrow> DocumentType \<Rightarrow> string \<Rightarrow> datetime
     \<Rightarrow> SignatureMetadata" where
  "sign_metadata self request doc_type doc_hash now =
     \<lparr> signer_name = JStr (req_signer_name request),
       signer_email = JStr (req_signer_email request),
       signature_date = now,
       document_hash = JStr doc_hash,
       signature_algorithm = JStr ''RSA-PSS with SHA-256'',
       key_fingerprint =
         (case get_public_key_fingerprint self of None \<Rightarrow> JNull | Some fp \<Rightarrow> JStr fp),
       additional_info =
         JObj (dict_update
           [(''document_type'', JStr (DocumentType_value doc_type)),
            (''document_name'', JStr (path_name (document_path request)))]
           (req_additional_info request)) \<rparr>"

text \<open>\<^verbatim>\<open># Calcular hash del documento\<close>.\<close>

definition sign_document_hash ::
  "crypto \<Rightarrow> KeyManager \<Rightarrow> world \<Rightarrow> SignatureRequest \<Rightarrow> DocumentType
     \<Rightarrow> (exn + SignatureResult) \<times> world" where
  "sign_document_hash L self w request doc_type =
     (case calculate_document_hash w (document_path request) of
        (Inl e, w1) \<Rightarrow> (Inl e, w1)
      | (Inr doc_hash, w1) \<Rightarrow>
          (case datetime_now w1 of
             (now, w2) \<Rightarrow>
               sign_document_sign L self w2 request
                 (sign_metadata self request doc_type doc_hash now) doc_hash))"

text \<open>The \<^verbatim>\<open>try\<close> block of \<open>sign_document\<close>.\<close>

definition sign_document_try ::
  "crypto \<Rightarrow> KeyManager \<Rightarrow> world \<Rightarrow> SignatureRequest \<Rightarrow> (exn + SignatureResult) \<times> world" where
  "sign_document_try L self w request =
     (if \<not> path_exists w (document_path request) then
        (Inr ((SignatureResult_init False Documento_no_encontrado)
           \<lparr>error := Some (El_archivo_no_existe (document_path request))\<rparr>), w)
      else case detect_document_type (document_path request) of
        None \<Rightarrow>
          (Inr ((SignatureResult_init False Tipo_de_documento_no_soportado)
             \<lparr>error := Some Solo_se_soportan_archivos_txt_pdf_zip\<rparr>), w)
      | Some doc_type \<Rightarrow> sign_document_hash L self w request doc_type)"

text \<open>The result that the \<^verbatim>\<open>except Exception as e\<close> branch of \<open>sign_document\<close> returns.\<close>

definition sign_failed :: "exn \<Rightarrow> SignatureResult" where
  "sign_failed e = (SignatureResult_init False Error_al_firmar_documento)\<lparr>error := Some (Str e)\<rparr>"

text \<open>
  \<open>sign_document\<close>: the outcome of the call. The handler is applied to what the \<^verbatim>\<open>try\<close>
  block raises; that no \<open>Inl\<close> is left is theorem \<open>failures_are_structured\<close>.
\<close>

definition sign_document ::
  "crypto \<Rightarrow> KeyManager \<Rightarrow> world \<Rightarrow> SignatureRequest \<Rightarrow> (exn + SignatureResult) \<times> world" where
  "sign_document L self w request =
     (case sign_document_try L self w request of
        (Inl e, w') \<Rightarrow> (Inr (sign_failed e), w')
      | (Inr result, w') \<Rightarrow> (Inr result, w'))"

text \<open>\<^verbatim>\<open>SignatureRequest(document_path=..., signer_name=..., signer_email=...)\<close>.\<close>

definition SignatureRequest_init :: "string \<Rightarrow> string \<Rightarrow> string \<Rightarrow> SignatureRequest" where
  "SignatureRequest_init doc_path name email =
     \<lparr> document_path = doc_path, req_signer_name = name, req_signer_email = email,
       output_path = None, req_additional_info = [] \<rparr>"

text \<open>
  The loop of \<open>sign_batch\<close>, from iteration \<open>i\<close> of \<open>n\<close> on, with the results appended so
  far. Nothing in \<open>sign_batch\<close> catches an exception: a \<^verbatim>\<open>print\<close> that raises ends the
  call, and the results are lost.
\<close>

fun sign_batch_loop ::
  "crypto \<Rightarrow> KeyManager \<Rightarrow> world \<Rightarrow> nat \<Rightarrow> nat \<Rightarrow> string list \<Rightarrow> string \<Rightarrow> string
     \<Rightarrow> SignatureResult list \<Rightarrow> (exn + SignatureResult list) \<times> world" where
  "sign_batch_loop L self w n i [] name email results = (Inr results, w)"
| "sign_batch_loop L self w n i (doc_path # document_paths) name email results =
     (case print_line w (Firmando i n doc_path) of
        Inl e \<Rightarrow> (Inl e, w)
      | Inr u \<Rightarrow>
          (case sign_document L self w (SignatureRequest_init doc_path name email) of
             (Inl e, w') \<Rightarrow> (Inl e, w')
           | (Inr result, w') \<Rightarrow>
               (case print_line w'
                       (if success result then Firmado_exitosamente
                        else Error_de_firma (error result)) of
                  Inl e \<Rightarrow> (Inl e, w')
                | Inr u' \<Rightarrow>
                    sign_batch_loop L self w' n (Suc i) document_paths name email
                      (results @ [result]))))"

definition sign_batch ::
  "crypto \<Rightarrow> KeyManager \<Rightarrow> world \<Rightarrow> string list \<Rightarrow> string \<Rightarrow> string
     \<Rightarrow> (exn + SignatureResult list) \<times> world" where
  "sign_batch L self w document_paths name email =
     (case print_line w (Firmando_documentos (length document_paths)) of
        Inl e \<Rightarrow> (Inl e, w)
      | Inr u \<Rightarrow>
          (case sign_batch_loop L self w (length document_paths) 1 document_paths name email [] of
             (Inl e, w') \<Rightarrow> (Inl e, w')
           | (Inr results, w') \<Rightarrow>
               (bindE (print_line w' Separador_nl) (\<lambda>u1.
                bindE (print_line w'
                         (Resumen_firmados (length (filter success results))
                            (length document_paths))) (\<lambda>u2.
                bindE (print_line w' Separador) (\<lambda>u3. Inr results))), w')))"

section \<open>\<^verbatim>\<open>signature_verifier.py\<close>\<close>

text \<open>
  The methods of \<^verbatim>\<open>SignatureVerifier\<close> read and write one attribute of \<^verbatim>\<open>self\<close>, the key
  manager: \<open>self\<close> is that \<^typ>\<open>KeyManager\<close>, and a method returns the new one.
\<close>

text \<open>
  \<^verbatim>\<open>SignatureVerifier(public_key_path)\<close>. The constructor has no handler: it raises when
  \<open>load_public_key\<close> does.
\<close>

definition SignatureVerifier_init ::
  "crypto \<Rightarrow> world \<Rightarrow> string option \<Rightarrow> (exn + KeyManager) \<times> world" where
  "SignatureVerifier_init L w key_path =
     (let km = \<lparr> key_size = 2048, private_key = None, public_key = None \<rparr>
      in if truthy_path key_path \<and> path_exists w (case key_path of Some p \<Rightarrow> p | None \<Rightarrow> [])
         then (case load_public_key L km w (case key_path of Some p \<Rightarrow> p | None \<Rightarrow> []) of
                 (Inl e, km', w') \<Rightarrow> (Inl e, w')
               | (Inr k, km', w') \<Rightarrow> (Inr km', w'))
         else (Inr km, w))"

text \<open>
  \<open>_load_signature_file\<close>: the decoded JSON value, or \<^verbatim>\<open>None\<close> when the handler has
  printed the failure; the call raises when that \<^verbatim>\<open>print\<close> does.
\<close>

definition load_signature_file_except :: "world \<Rightarrow> exn \<Rightarrow> (exn + json option) \<times> world" where
  "load_signature_file_except w e =
     (case print_line w (Error_al_cargar_archivo_de_firma e) of
        Inl e' \<Rightarrow> (Inl e', w)
      | Inr u \<Rightarrow> (Inr None, w))"

definition load_signature_file :: "world \<Rightarrow> string \<Rightarrow> (exn + json option) \<times> world" where
  "load_signature_file w0 signature_file_path =
     (let w = enter (Load_signature_file signature_file_path) w0 in
      if \<not> path_exists w signature_file_path then
        (case print_line w (Error_archivo_de_firma_no_encontrado signature_file_path) of
           Inl e \<Rightarrow> load_signature_file_except w e
         | Inr u \<Rightarrow> (Inr None, w))
      else case read_text w signature_file_path of
        Inl e \<Rightarrow> load_signature_file_except w e
      | Inr txt \<Rightarrow>
          (case json_loads txt of
             None \<Rightarrow> load_signature_file_except w JSONDecodeError
           | Some v \<Rightarrow> (Inr (Some v), w)))"

text \<open>\<^verbatim>\<open>SignatureVerifier._calculate_document_hash\<close>, a copy of the signer's routine.\<close>

definition verifier_calculate_document_hash :: "world \<Rightarrow> string \<Rightarrow> (exn + string) \<times> world" where
  "verifier_calculate_document_hash w0 file_path =
     (let w = enter (Calculate_document_hash file_path) w0 in
      case read_bytes w file_path of
        Inl e \<Rightarrow> (Inl e, w)
      | Inr bs \<Rightarrow> (Inr (hex (hash_finalize (fold hash_update (chunks 8192 bs) []))), w))"

text \<open>
  \<open>_verify_signature\<close>: \<^verbatim>\<open>True\<close> when the library accepts the signature, \<^verbatim>\<open>False\<close> on
  \<^verbatim>\<open>InvalidSignature\<close>; any other exception (among them the attribute error of a missing
  public key) is printed and gives \<^verbatim>\<open>False\<close>, unless that \<^verbatim>\<open>print\<close> raises.
\<close>

definition verify_signature_except :: "world \<Rightarrow> exn \<Rightarrow> (exn + bool) \<times> world" where
  "verify_signature_except w e =
     (case print_line w (Error_al_verificar_firma e) of
        Inl e' \<Rightarrow> (Inl e', w)
      | Inr u \<Rightarrow> (Inr False, w))"

definition verify_signature ::
  "crypto \<Rightarrow> KeyManager \<Rightarrow> world \<Rightarrow> string \<Rightarrow> string \<Rightarrow> (exn + bool) \<times> world" where
  "verify_signature L self w0 doc_hash sig =
     (let w = enter Verify_signature w0 in
      case public_key self of
        None \<Rightarrow> verify_signature_except w AttributeError
      | Some k \<Rightarrow>
          (case pss_verify L k sig doc_hash of
             Inl e \<Rightarrow> verify_signature_except w e
           | Inr ok \<Rightarrow> (Inr ok, w)))"

text \<open>\<^verbatim>\<open>bytes.fromhex(signature_package['signature'])\<close>.\<close>

definition bytes_fromhex :: "json \<Rightarrow> exn + string" where
  "bytes_fromhex v =
     (case v of
        JStr s \<Rightarrow> (case fromhex s of None \<Rightarrow> Inl ValueError | Some bs \<Rightarrow> Inr bs)
      | _ \<Rightarrow> Inl TypeError)"

text \<open>The two assignments after the signature file is loaded; either can raise.\<close>

definition extract_signature :: "json \<Rightarrow> exn + string \<times> SignatureMetadata" where
  "extract_signature package =
     bindE (getitem package ''signature'') (\<lambda>sig_hex.
     bindE (bytes_fromhex sig_hex) (\<lambda>sig.
     bindE (getitem package ''metadata'') (\<lambda>meta_dict.
     bindE (from_dict meta_dict) (\<lambda>meta. Inr (sig, meta)))))"

text \<open>A failure result of \<open>verify_document\<close>: \<^verbatim>\<open>success=False\<close> with the given fields.\<close>

definition verify_result :: "SignatureStatus \<Rightarrow> message \<Rightarrow> error_text \<Rightarrow> SignatureResult" where
  "verify_result st msg err =
     (SignatureResult_init False msg)\<lparr>status := Some st, error := Some err\<rparr>"

text \<open>
  \<open>verify_document\<close> is written as a chain as well, each definition being the rest of the
  \<^verbatim>\<open>try\<close> block from one comment of the source to the end, with \<open>Inr\<close> for the result
  that the block returns and \<open>Inl\<close> for the exception that a statement raises.
\<close>

text \<open>\<^verbatim>\<open># Verificar la firma digital\<close>.\<close>

definition verify_document_crypto ::
  "crypto \<Rightarrow> KeyManager \<Rightarrow> world \<Rightarrow> SignatureMetadata \<Rightarrow> string \<Rightarrow> string
     \<Rightarrow> (exn + SignatureResult) \<times> KeyManager \<times> world" where
  "verify_document_crypto L self w meta current_hash sig =
     (case verify_signature L self w current_hash sig of
        (Inl e, w') \<Rightarrow> (Inl e, self, w')
      | (Inr is_valid, w') \<Rightarrow>
          if is_valid then
            (Inr ((SignatureResult_init True Firma_valida)
               \<lparr>status := Some VALID, metadata := Some meta\<rparr>), self, w')
          else
            (Inr ((verify_result INVALID Firma_invalida La_firma_digital_no_pudo_ser_verificada)
               \<lparr>metadata := Some meta\<rparr>), self, w'))"

text \<open>\<^verbatim>\<open># Calcular hash actual del documento\<close> and the comparison with the recorded hash.\<close>

definition verify_document_hash ::
  "crypto \<Rightarrow> KeyManager \<Rightarrow> world \<Rightarrow> string \<Rightarrow> SignatureMetadata \<Rightarrow> string
     \<Rightarrow> (exn + SignatureResult) \<times> KeyManager \<times> world" where
  "verify_document_hash L self w doc_path meta sig =
     (case verifier_calculate_document_hash w doc_path of
        (Inl e, w') \<Rightarrow> (Inl e, self, w')
      | (Inr current_hash, w') \<Rightarrow>
          if JStr current_hash \<noteq> document_hash meta then
            (Inr ((verify_result TAMPERED El_documento_ha_sido_modificado_despues_de_la_firma
                El_hash_del_documento_no_coincide_con_el_hash_firmado)
               \<lparr>metadata := Some meta\<rparr>), self, w')
          else verify_document_crypto L self w' meta current_hash sig)"

text \<open>
  The key that the verification uses: \<^verbatim>\<open># Cargar clave publica si se proporciono una
  diferente\<close>. With a path in the request the key is loaded from it into the manager;
  without one the manager's key is taken as it is.
\<close>

definition resolve_public_key ::
  "crypto \<Rightarrow> KeyManager \<Rightarrow> world \<Rightarrow> VerificationRequest
     \<Rightarrow> (exn + public_key option) \<times> KeyManager \<times> world" where
  "resolve_public_key L self w request =
     (if truthy_path (public_key_path request)
      then load_public_key L self w (case public_key_path request of Some p \<Rightarrow> p | None \<Rightarrow> [])
      else (Inr (public_key self), self, w))"

text \<open>
  \<^verbatim>\<open># Cargar clave publica si se proporciono una diferente\<close> and
  \<^verbatim>\<open># Verificar que tenemos una clave publica\<close>.
\<close>

definition verify_document_key ::
  "crypto \<Rightarrow> KeyManager \<Rightarrow> world \<Rightarrow> VerificationRequest \<Rightarrow> string \<Rightarrow> SignatureMetadata
     \<Rightarrow> string \<Rightarrow> (exn + SignatureResult) \<times> KeyManager \<times> world" where
  "verify_document_key L self w request doc_path meta sig =
     (case resolve_public_key L self w request of
        (Inl e, self', w') \<Rightarrow> (Inl e, self', w')
      | (Inr loaded, self', w') \<Rightarrow>
          if truthy_path (public_key_path request) \<and> loaded = None then
            (Inr (verify_result KEY_MISMATCH No_se_pudo_cargar_la_clave_publica
               Error_al_cargar_la_clave_publica_proporcionada), self', w')
          else if public_key self' = None then
            (Inr (verify_result KEY_MISMATCH No_hay_clave_publica_disponible
               Se_requiere_una_clave_publica_para_verificar_la_firma), self', w')
          else verify_document_hash L self' w' doc_path meta sig)"

text \<open>\<^verbatim>\<open># Cargar archivo de firma\<close> and \<^verbatim>\<open># Extraer firma y metadatos\<close>.\<close>

definition verify_document_load ::
  "crypto \<Rightarrow> KeyManager \<Rightarrow> world \<Rightarrow> VerificationRequest \<Rightarrow> string \<Rightarrow> string
     \<Rightarrow> (exn + SignatureResult) \<times> KeyManager \<times> world" where
  "verify_document_load L self w request doc_path signature_file_path =
     (case load_signature_file w signature_file_path of
        (Inl e, w') \<Rightarrow> (Inl e, self, w')
      | (Inr None, w') \<Rightarrow>
          (Inr (verify_result INVALID No_se_pudo_cargar_el_archivo_de_firma
             El_archivo_de_firma_es_invalido_o_esta_corrupto), self, w')
      | (Inr (Some package), w') \<Rightarrow>
          if \<not> truthy package then
            (Inr (verify_result INVALID No_se_pudo_cargar_el_archivo_de_firma
               El_archivo_de_firma_es_invalido_o_esta_corrupto), self, w')
          else (case extract_signature package of
                  Inl e \<Rightarrow> (Inl e, self, w')
                | Inr (sig, meta) \<Rightarrow> verify_document_key L self w' request doc_path meta sig))"

text \<open>\<^verbatim>\<open># Determinar ruta del archivo de firma\<close>: the signature file and the document.\<close>

definition verify_paths :: "VerificationRequest \<Rightarrow> string \<times> string" where
  "verify_paths request =
     (if endswith (signed_document_path request) ''.sig'' then
        (signed_document_path request,
         if truthy_path (original_document_path request)
         then (case original_document_path request of Some p \<Rightarrow> p | None \<Rightarrow> [])
         else take (length (signed_document_path request) - 4) (signed_document_path request))
      else
        (signed_document_path request @ ''.sig'', signed_document_path request))"

text \<open>The \<^verbatim>\<open>try\<close> block of \<open>verify_document\<close>.\<close>

definition verify_document_try ::
  "crypto \<Rightarrow> KeyManager \<Rightarrow> world \<Rightarrow> VerificationRequest
     \<Rightarrow> (exn + SignatureResult) \<times> KeyManager \<times> world" where
  "verify_document_try L self w request =
     (if \<not> path_exists w (signed_document_path request) then
        (Inr (verify_result INVALID Documento_firmado_no_encontrado
           (El_archivo_no_existe (signed_document_path request))), self, w)
      else case verify_paths request of
        (signature_file_path, doc_path) \<Rightarrow>
          if \<not> path_exists w doc_path then
            (Inr (verify_result INVALID Documento_original_no_encontrado
               (El_archivo_no_existe doc_path)), self, w)
          else verify_document_load L self w request doc_path signature_file_path)"

text \<open>The result that the \<^verbatim>\<open>except Exception as e\<close> branch of \<open>verify_document\<close> returns.\<close>

definition verify_failed :: "exn \<Rightarrow> SignatureResult" where
  "verify_failed e = verify_result INVALID Error_al_verificar_documento (Str e)"

text \<open>\<open>verify_document\<close>: the outcome of the call, the key manager it leaves, the world.\<close>

definition verify_document ::
  "crypto \<Rightarrow> KeyManager \<Rightarrow> world \<Rightarrow> VerificationRequest
     \<Rightarrow> (exn + SignatureResult) \<times> KeyManager \<times> world" where
  "verify_document L self w request =
     (case verify_document_try L self w request of
        (Inl e, self', w') \<Rightarrow> (Inr (verify_failed e), self', w')
      | (Inr result, self', w') \<Rightarrow> (Inr result, self', w'))"

text \<open>\<^verbatim>\<open>VerificationRequest(signed_document_path=doc_path)\<close>.\<close>

definition VerificationRequest_init :: "string \<Rightarrow> VerificationRequest" where
  "VerificationRequest_init doc_path =
     \<lparr> signed_document_path = doc_path, original_document_path = None, public_key_path = None \<rparr>"

text \<open>The lines that \<open>verify_batch\<close> prints for one result.\<close>

definition verify_batch_report :: "world \<Rightarrow> SignatureResult \<Rightarrow> exn + unit" where
  "verify_batch_report w result =
     bindE (print_line w (Resultado (status result = Some VALID) (message result))) (\<lambda>u.
       case metadata result of
         None \<Rightarrow> Inr ()
       | Some meta \<Rightarrow>
           bindE (print_line w (Firmante (signer_name meta) (signer_email meta))) (\<lambda>u'.
           print_line w (Fecha (signature_date meta))))"

fun verify_batch_loop ::
  "crypto \<Rightarrow> KeyManager \<Rightarrow> world \<Rightarrow> nat \<Rightarrow> nat \<Rightarrow> string list \<Rightarrow> SignatureResult list
     \<Rightarrow> (exn + SignatureResult list) \<times> KeyManager \<times> world" where
  "verify_batch_loop L self w n i [] results = (Inr results, self, w)"
| "verify_batch_loop L self w n i (doc_path # document_paths) results =
     (case print_line w (Verificando i n doc_path) of
        Inl e \<Rightarrow> (Inl e, self, w)
      | Inr u \<Rightarrow>
          (case verify_document L self w (VerificationRequest_init doc_path) of
             (Inl e, self', w') \<Rightarrow> (Inl e, self', w')
           | (Inr result, self', w') \<Rightarrow>
               (case verify_batch_report w' result of
                  Inl e \<Rightarrow> (Inl e, self', w')
                | Inr u' \<Rightarrow>
                    verify_batch_loop L self' w' n (Suc i) document_paths (results @ [result]))))"

definition verify_batch ::
  "crypto \<Rightarrow> KeyManager \<Rightarrow> world \<Rightarrow> string list
     \<Rightarrow> (exn + SignatureResult list) \<times> KeyManager \<times> world" where
  "verify_batch L self w document_paths =
     (case print_line w (Verificando_documentos (length document_paths)) of
        Inl e \<Rightarrow> (Inl e, self, w)
      | Inr u \<Rightarrow>
          (case verify_batch_loop L self w (length document_paths) 1 document_paths [] of
             (Inl e, self', w') \<Rightarrow> (Inl e, self', w')
           | (Inr results, self', w') \<Rightarrow>
               (bindE (print_line w' Separador_nl) (\<lambda>u1.
                bindE (print_line w'
                         (Resumen_validas
                            (length (filter (\<lambda>r. status r = Some VALID) results))
                            (length document_paths))) (\<lambda>u2.
                bindE (print_line w' Separador) (\<lambda>u3. Inr results))), self', w')))"

section \<open>Concrete instances for the closed examples\<close>

text \<open>
  An instance of the library parameter: a key is an opaque byte string that is its own
  public half, a PEM file holds the key bytes, and a signature is the salt followed by
  the key and the message. It obeys the law of a signature scheme that the examples
  need (a signature verifies under the key that made it); it is not RSA.
\<close>

definition demo_crypto :: crypto where
  "demo_crypto =
     \<lparr> load_pem_private_key = (\<lambda>pem password. if pem = [] then None else Some (PrivateKey pem)),
       load_pem_public_key = (\<lambda>pem. if pem = [] then None else Some (PublicKey pem)),
       public_key_of = (\<lambda>k. PublicKey (pkcs8_der k)),
       pss_sign = (\<lambda>k salt m. Some (salt @ pkcs8_der k @ m)),
       pss_verify = (\<lambda>k sig m. Inr (endswith sig (spki_der k @ m))) \<rparr>"

text \<open>A signer that has loaded its private key, and two verifiers.\<close>

definition demo_signer :: KeyManager where
  "demo_signer =
     \<lparr> key_size = 2048, private_key = Some (PrivateKey ''K1''),
       public_key = Some (PublicKey ''K1'') \<rparr>"

definition demo_verifier :: KeyManager where
  "demo_verifier = \<lparr> key_size = 2048, private_key = None, public_key = Some (PublicKey ''K1'') \<rparr>"

text \<open>What \<^verbatim>\<open>SignatureVerifier()\<close> holds: no key.\<close>

definition keyless_verifier :: KeyManager where
  "keyless_verifier = \<lparr> key_size = 2048, private_key = None, public_key = None \<rparr>"

text \<open>
  A file system with the document of the specification's scenario (the three bytes
  \<^verbatim>\<open>abc\<close>), a second document, a file of another type and two public key files; a
  standard output that takes every line.
\<close>

definition demo_world :: world where
  "demo_world =
     \<lparr> files = [''doc.txt'' \<mapsto> Regular ''abc'', ''b.pdf'' \<mapsto> Regular ''%PDF'',
                ''notes.exe'' \<mapsto> Regular ''MZ'',
                ''keys/public.pem'' \<mapsto> Regular ''K1'', ''other.pem'' \<mapsto> Regular ''K2''],
       unreadable = {},
       unwritable = {},
       flushed = (\<lambda>txt. []),
       clock = (\<lambda>n. DateTime ''2025-11-19T10:30:00''),
       ticks = 0,
       entropy = (\<lambda>n. ''salt''),
       draws = 0,
       stdout_accepts = (\<lambda>l. True),
       calls = [] \<rparr>"

text \<open>
  The same world with a standard output encoded in cp1252, which has neither the check
  mark nor the cross (the other texts of the examples are ASCII).
\<close>

definition cp1252_accepts :: "line \<Rightarrow> bool" where
  "cp1252_accepts l =
     (case l of
        Firmado_exitosamente \<Rightarrow> False
      | Error_de_firma err \<Rightarrow> False
      | Resultado ok msg \<Rightarrow> False
      | _ \<Rightarrow> True)"

definition cp1252_world :: world where
  "cp1252_world = demo_world\<lparr>stdout_accepts := cp1252_accepts\<rparr>"

definition ada_request :: SignatureRequest where
  "ada_request = SignatureRequest_init ''doc.txt'' ''Ada'' ''ada@example.com''"

section \<open>Predicates used in the statements\<close>

text \<open>The messages of the failures of \<open>sign_document\<close> and of \<open>verify_document\<close>.\<close>

definition sign_failure_messages :: "message set" where
  "sign_failure_messages =
     {Documento_no_encontrado, Tipo_de_documento_no_soportado, Error_al_firmar_documento}"

definition verify_failure_messages :: "message set" where
  "verify_failure_messages =
     {Documento_firmado_no_encontrado, Documento_original_no_encontrado,
      No_se_pudo_cargar_el_archivo_de_firma, No_se_pudo_cargar_la_clave_publica,
      No_hay_clave_publica_disponible, El_documento_ha_sido_modificado_despues_de_la_firma,
      Firma_invalida, Error_al_verificar_documento}"

text \<open>The two shapes of a result of \<open>sign_document\<close>, and the two of \<open>verify_document\<close>.\<close>

definition sign_result_wf :: "SignatureResult \<Rightarrow> bool" where
  "sign_result_wf r \<longleftrightarrow>
     (if success r
      then status r = Some VALID \<and> error r = None
        \<and> message r = Documento_firmado_exitosamente
      else status r = None \<and> error r \<noteq> None \<and> message r \<in> sign_failure_messages)"

definition verify_result_wf :: "SignatureResult \<Rightarrow> bool" where
  "verify_result_wf r \<longleftrightarrow>
     (if success r
      then status r = Some VALID \<and> error r = None \<and> message r = Firma_valida
      else status r \<in> {Some INVALID, Some TAMPERED, Some KEY_MISMATCH} \<and> error r \<noteq> None
        \<and> message r \<in> verify_failure_messages)"

text \<open>Where \<open>sign_document\<close> writes the signature file of a request.\<close>

definition sidecar_path :: "SignatureRequest \<Rightarrow> string" where
  "sidecar_path request =
     (if truthy_path (output_path request)
      then (case output_path request of Some p \<Rightarrow> p | None \<Rightarrow> [])
      else get_signature_file_path (document_path request))"

text \<open>An outcome that is a result reporting success.\<close>

definition succeeds :: "exn + SignatureResult \<Rightarrow> bool" where
  "succeeds x = (case x of Inl e \<Rightarrow> False | Inr r \<Rightarrow> success r)"

text \<open>
  Every step of a signing goes well: the document exists, its type is supported, it can
  be read, the signer holds a private key, the library signs the hash, the signature
  file can be opened for writing, its text can be encoded, and the line that reports the
  saved file can be printed.
\<close>

definition sign_steps_ok :: "crypto \<Rightarrow> KeyManager \<Rightarrow> world \<Rightarrow> SignatureRequest \<Rightarrow> bool" where
  "sign_steps_ok L self w request \<longleftrightarrow>
     path_exists w (document_path request)
     \<and> (case detect_document_type (document_path request) of
          None \<Rightarrow> False
        | Some doc_type \<Rightarrow>
     (case read_bytes w (document_path request) of
          Inl e \<Rightarrow> False
        | Inr bs \<Rightarrow>
     (case private_key self of
          None \<Rightarrow> False
        | Some k \<Rightarrow>
     (case pss_sign L k (entropy w (draws w)) (hex (sha256 bs)) of
          None \<Rightarrow> False
        | Some sig \<Rightarrow>
            files w (sidecar_path request) \<noteq> Some Directory
            \<and> sidecar_path request \<notin> unwritable w
            \<and> utf8_valid (json_dumps (signature_package sig
                 (sign_metadata self request doc_type (hex (sha256 bs)) (clock w (ticks w)))))
            \<and> stdout_accepts w (Firma_guardada_en (sidecar_path request))))))"

text \<open>
  The public key that a verification can use: the one that loads from the path of the
  request when the request has a path, the verifier's own otherwise.
\<close>

definition usable_key ::
  "crypto \<Rightarrow> KeyManager \<Rightarrow> world \<Rightarrow> VerificationRequest \<Rightarrow> public_key option" where
  "usable_key L self w request =
     (if truthy_path (public_key_path request) then
        (case public_key_path request of
           None \<Rightarrow> None
         | Some p \<Rightarrow>
             (case read_bytes w p of
                Inl e \<Rightarrow> None
              | Inr pem \<Rightarrow>
                  if stdout_accepts w (Clave_publica_cargada_desde p)
                  then load_pem_public_key L pem else None))
      else public_key self)"

text \<open>
  Every step of a verification goes well: the signed document, the original document
  and the signature file exist, the signature file is read and decoded to a non-empty
  package that holds a signature in hexadecimal and well-formed metadata, a public key
  can be used, the document can be read, its hash is the recorded one, and the library
  accepts the signature.
\<close>

definition verify_steps_ok ::
  "crypto \<Rightarrow> KeyManager \<Rightarrow> world \<Rightarrow> VerificationRequest \<Rightarrow> bool" where
  "verify_steps_ok L self w request \<longleftrightarrow>
     path_exists w (signed_document_path request)
     \<and> (case verify_paths request of
          (signature_file_path, doc_path) \<Rightarrow>
            path_exists w doc_path
            \<and> path_exists w signature_file_path
            \<and> (case read_text w signature_file_path of
                 Inl e \<Rightarrow> False
               | Inr txt \<Rightarrow>
            (case json_loads txt of
                 None \<Rightarrow> False
               | Some package \<Rightarrow>
                   truthy package
                   \<and> (case extract_signature package of
                        Inl e \<Rightarrow> False
                      | Inr (sig, meta) \<Rightarrow>
                   (case usable_key L self w request of
                        None \<Rightarrow> False
                      | Some k \<Rightarrow>
                   (case read_bytes w doc_path of
                        Inl e \<Rightarrow> False
                      | Inr bs \<Rightarrow>
                          JStr (hex (sha256 bs)) = document_hash meta
                          \<and> pss_verify L k sig (hex (sha256 bs)) = Inr True))))))"

text \<open>
  The world after \<open>sign_document\<close> has been called for each path of a list in turn, with
  the request that \<open>sign_batch\<close> builds for it.
\<close>

definition sign_each ::
  "crypto \<Rightarrow> KeyManager \<Rightarrow> world \<Rightarrow> string list \<Rightarrow> string \<Rightarrow> string \<Rightarrow> world" where
  "sign_each L self w document_paths name email =
     fold (\<lambda>doc_path w'. snd (sign_document L self w' (SignatureRequest_init doc_path name email)))
       document_paths w"

text \<open>
  Two worlds differ at most in their files, their counters and their record of calls:
  the permissions, the clock, the entropy source, the flushing and the standard output
  are the same.
\<close>

definition same_surroundings :: "world \<Rightarrow> world \<Rightarrow> bool" where
  "same_surroundings w w' \<longleftrightarrow>
     unreadable w' = unreadable w \<and> unwritable w' = unwritable w \<and> flushed w' = flushed w
     \<and> clock w' = clock w \<and> entropy w' = entropy w \<and> stdout_accepts w' = stdout_accepts w"

section \<open>Library facts\<close>

lemma concat_chunks: "0 < n \<Longrightarrow> concat (chunks n xs) = xs"
proof (induction n xs rule: chunks.induct)
  case (1 n xs)
  show ?case
  proof (cases "xs = []")
    case True
    then show ?thesis by (subst chunks.simps) simp
  next
    case False
    with 1 have "concat (chunks n (drop n xs)) = drop n xs" by simp
    moreover have "chunks n xs = take n xs # chunks n (drop n xs)"
      using False 1(2) by (subst chunks.simps) simp
    ultimately show ?thesis by simp
  qed
qed

lemma of_char_lt_256: "(of_char c :: nat) < 256"
proof -
  have "(of_char c :: nat) mod 256 = of_char c" by (rule of_char_mod_256)
  moreover have "(of_char c :: nat) mod 256 < 256" by simp
  ultimately show ?thesis by simp
qed

lemma hexval_hexdigit: "n < 16 \<Longrightarrow> hexval (hexdigit n) = Some n"
proof -
  assume "n < 16"
  then have "n \<in> set [0..<16]" by simp
  moreover have "\<forall>n \<in> set [0..<16]. hexval (hexdigit n) = Some n" by code_simp
  ultimately show ?thesis by blast
qed

lemma hexdigit_not_space: "n < 16 \<Longrightarrow> \<not> is_ascii_space (hexdigit n)"
proof -
  assume "n < 16"
  then have "n \<in> set [0..<16]" by simp
  moreover have "\<forall>n \<in> set [0..<16]. \<not> is_ascii_space (hexdigit n)" by code_simp
  ultimately show ?thesis by blast
qed

lemma fromhex_hex: "fromhex (hex bs) = Some bs"
proof (induction bs)
  case Nil
  then show ?case by (simp add: hex_def)
next
  case (Cons c bs)
  have d: "(of_char c :: nat) div 16 < 16"
    using of_char_lt_256 [of c] by (simp add: less_mult_imp_div_less)
  have m: "(of_char c :: nat) mod 16 < 16" by simp
  have "hex (c # bs) = hexdigit (of_char c div 16) # hexdigit (of_char c mod 16) # hex bs"
    by (simp add: hex_def)
  with Cons d m show ?case
    by (simp add: hexval_hexdigit hexdigit_not_space)
qed

subsection \<open>The document hash\<close>

lemma fold_hash_update: "fold hash_update cs acc = acc @ concat cs"
  by (induction cs arbitrary: acc) (simp_all add: hash_update_def)

lemma hash_of_chunks: "hash_finalize (fold hash_update (chunks 8192 bs) []) = sha256 bs"
  by (simp add: hash_finalize_def fold_hash_update concat_chunks)

lemma calculate_document_hash_eq:
  "calculate_document_hash w p =
     (map_sum id (\<lambda>bs. hex (sha256 bs)) (read_bytes w p), enter (Calculate_document_hash p) w)"
proof -
  have r: "read_bytes (enter (Calculate_document_hash p) w) p = read_bytes w p"
    by (simp add: read_bytes_def enter_def split: option.splits node.splits)
  show ?thesis
    unfolding calculate_document_hash_def Let_def r hash_of_chunks
    by (cases "read_bytes w p") simp_all
qed

lemma verifier_calculate_document_hash_eq:
  "verifier_calculate_document_hash w p = calculate_document_hash w p"
  by (simp add: calculate_document_hash_def verifier_calculate_document_hash_def)

section \<open>Results and their shape\<close>

lemma verify_failure_messages_simps [simp]:
  "Documento_firmado_no_encontrado \<in> verify_failure_messages"
  "Documento_original_no_encontrado \<in> verify_failure_messages"
  "No_se_pudo_cargar_el_archivo_de_firma \<in> verify_failure_messages"
  "No_se_pudo_cargar_la_clave_publica \<in> verify_failure_messages"
  "No_hay_clave_publica_disponible \<in> verify_failure_messages"
  "El_documento_ha_sido_modificado_despues_de_la_firma \<in> verify_failure_messages"
  "Firma_invalida \<in> verify_failure_messages"
  "Error_al_verificar_documento \<in> verify_failure_messages"
  by (simp_all add: verify_failure_messages_def)

lemma sign_failure_messages_simps [simp]:
  "Documento_no_encontrado \<in> sign_failure_messages"
  "Tipo_de_documento_no_soportado \<in> sign_failure_messages"
  "Error_al_firmar_documento \<in> sign_failure_messages"
  by (simp_all add: sign_failure_messages_def)

lemma sign_failed_wf: "sign_result_wf (sign_failed e)"
  by (simp add: sign_result_wf_def sign_failed_def SignatureResult_init_def)

lemma sign_document_save_wf:
  "sign_document_save w request meta sig = (Inr r, w') \<Longrightarrow> sign_result_wf r"
  by (auto simp: sign_document_save_def Let_def sign_result_wf_def SignatureResult_init_def
      split: prod.splits sum.splits)

lemma sign_document_sign_wf:
  "sign_document_sign L self w request meta h = (Inr r, w') \<Longrightarrow> sign_result_wf r"
  by (auto simp: sign_document_sign_def dest: sign_document_save_wf
      split: prod.splits sum.splits)

lemma sign_document_hash_wf:
  "sign_document_hash L self w request t = (Inr r, w') \<Longrightarrow> sign_result_wf r"
  by (auto simp: sign_document_hash_def dest: sign_document_sign_wf
      split: prod.splits sum.splits)

lemma sign_document_try_wf:
  "sign_document_try L self w request = (Inr r, w') \<Longrightarrow> sign_result_wf r"
  by (auto simp: sign_document_try_def sign_result_wf_def SignatureResult_init_def
      dest: sign_document_hash_wf split: option.splits if_splits)

lemma sign_document_returns:
  "\<exists>r. fst (sign_document L self w request) = Inr r"
  by (simp add: sign_document_def split: prod.splits sum.splits)

lemma sign_document_wf:
  "fst (sign_document L self w request) = Inr r \<Longrightarrow> sign_result_wf r"
  by (auto simp: sign_document_def sign_failed_wf dest: sign_document_try_wf
      split: prod.splits sum.splits)

lemma verify_result_is_wf:
  "st \<in> {INVALID, TAMPERED, KEY_MISMATCH} \<Longrightarrow> msg \<in> verify_failure_messages \<Longrightarrow>
   verify_result_wf (verify_result st msg err)"
  by (auto simp: verify_result_wf_def verify_result_def SignatureResult_init_def)

lemma verify_failed_wf: "verify_result_wf (verify_failed e)"
  by (simp add: verify_failed_def verify_result_is_wf)

lemma verify_document_crypto_wf:
  "verify_document_crypto L self w meta h sig = (Inr r, self', w') \<Longrightarrow> verify_result_wf r"
  by (auto simp: verify_document_crypto_def verify_result_wf_def verify_result_def
      SignatureResult_init_def split: prod.splits sum.splits if_splits)

lemma verify_document_hash_wf:
  "verify_document_hash L self w doc_path meta sig = (Inr r, self', w') \<Longrightarrow> verify_result_wf r"
  by (auto simp: verify_document_hash_def verify_result_wf_def verify_result_def
      SignatureResult_init_def dest: verify_document_crypto_wf
      split: prod.splits sum.splits if_splits)

lemma verify_document_key_wf:
  "verify_document_key L self w request doc_path meta sig = (Inr r, self', w') \<Longrightarrow> verify_result_wf r"
  by (auto simp: verify_document_key_def verify_result_is_wf dest: verify_document_hash_wf
      split: prod.splits sum.splits if_splits)

lemma verify_document_load_wf:
  "verify_document_load L self w request doc_path sig_path = (Inr r, self', w') \<Longrightarrow> verify_result_wf r"
  by (auto simp: verify_document_load_def verify_result_is_wf dest: verify_document_key_wf
      split: prod.splits option.splits sum.splits if_splits)

lemma verify_document_try_wf:
  "verify_document_try L self w request = (Inr r, self', w') \<Longrightarrow> verify_result_wf r"
  by (auto simp: verify_document_try_def verify_result_is_wf dest: verify_document_load_wf
      split: prod.splits if_splits)

lemma verify_document_returns:
  "\<exists>r. fst (verify_document L self w request) = Inr r"
  by (simp add: verify_document_def split: prod.splits sum.splits)

lemma verify_document_wf:
  "fst (verify_document L self w request) = Inr r \<Longrightarrow> verify_result_wf r"
  by (auto simp: verify_document_def verify_failed_wf dest: verify_document_try_wf
      split: prod.splits sum.splits)

section \<open>Frame properties of signing\<close>

lemma files_enter [simp]: "files (enter c w) = files w"
  by (simp add: enter_def)

lemma unreadable_enter [simp]: "unreadable (enter c w) = unreadable w"
  by (simp add: enter_def)

lemma unwritable_enter [simp]: "unwritable (enter c w) = unwritable w"
  by (simp add: enter_def)

lemma stdout_accepts_enter [simp]: "stdout_accepts (enter c w) = stdout_accepts w"
  by (simp add: enter_def)

lemma clock_enter [simp]: "clock (enter c w) = clock w"
  by (simp add: enter_def)

lemma ticks_enter [simp]: "ticks (enter c w) = ticks w"
  by (simp add: enter_def)

lemma entropy_enter [simp]: "entropy (enter c w) = entropy w"
  by (simp add: enter_def)

lemma draws_enter [simp]: "draws (enter c w) = draws w"
  by (simp add: enter_def)

lemma flushed_enter [simp]: "flushed (enter c w) = flushed w"
  by (simp add: enter_def)

lemma read_bytes_enter [simp]: "read_bytes (enter c w) p = read_bytes w p"
  by (simp add: read_bytes_def split: option.splits node.splits)

lemma read_text_enter [simp]: "read_text (enter c w) p = read_text w p"
  by (simp add: read_text_def)

lemma path_exists_enter [simp]: "path_exists (enter c w) p = path_exists w p"
  by (simp add: path_exists_def)

lemma print_line_enter [simp]: "print_line (enter c w) l = print_line w l"
  by (simp add: print_line_def)

lemma same_surroundings_refl [simp]: "same_surroundings w w"
  by (simp add: same_surroundings_def)

lemma same_surroundings_trans:
  "same_surroundings w w' \<Longrightarrow> same_surroundings w' w'' \<Longrightarrow> same_surroundings w w''"
  by (simp add: same_surroundings_def)

lemma same_surroundings_enter [simp]: "same_surroundings w (enter c w)"
  by (simp add: same_surroundings_def)

lemma same_surroundings_print:
  "same_surroundings w w' \<Longrightarrow> print_line w' l = print_line w l"
  by (simp add: same_surroundings_def print_line_def)

lemma write_text_surroundings: "same_surroundings w (snd (write_text w p txt))"
  by (simp add: write_text_def same_surroundings_def)

lemma write_text_files: "q \<noteq> p \<Longrightarrow> files (snd (write_text w p txt)) q = files w q"
  by (simp add: write_text_def)

lemma write_text_counters:
  "ticks (snd (write_text w p txt)) = ticks w \<and> draws (snd (write_text w p txt)) = draws w"
  by (simp add: write_text_def)

lemma save_signature_world:
  "snd (save_signature w p sig meta) =
     snd (write_text (enter (Save_signature p) w) p (json_dumps (signature_package sig meta)))"
  by (simp add: save_signature_def Let_def split: prod.splits sum.splits)

lemma save_signature_surroundings: "same_surroundings w (snd (save_signature w p sig meta))"
  unfolding save_signature_world
  by (rule same_surroundings_trans [OF same_surroundings_enter write_text_surroundings])

lemma save_signature_files:
  "q \<noteq> p \<Longrightarrow> files (snd (save_signature w p sig meta)) q = files w q"
  by (simp add: save_signature_world write_text_files)

lemma sign_document_save_world:
  "snd (sign_document_save w request meta sig)
     = snd (save_signature w (sidecar_path request) sig meta)"
  by (simp add: sign_document_save_def sidecar_path_def Let_def split: prod.splits sum.splits)

lemma create_signature_world:
  "snd (create_signature L self w h) = enter Create_signature w
   \<or> snd (create_signature L self w h)
       = (enter Create_signature w)\<lparr>draws := Suc (draws w)\<rparr>"
  by (simp add: create_signature_def Let_def split: option.splits)

lemma create_signature_surroundings: "same_surroundings w (snd (create_signature L self w h))"
  using create_signature_world [of L self w h]
  by (auto simp: same_surroundings_def)

lemma create_signature_files [simp]: "files (snd (create_signature L self w h)) = files w"
  using create_signature_world [of L self w h] by auto

lemma sign_document_sign_world:
  "snd (sign_document_sign L self w request meta h) = snd (create_signature L self w h)
   \<or> (\<exists>sig. snd (sign_document_sign L self w request meta h)
         = snd (sign_document_save (snd (create_signature L self w h)) request meta sig))"
  by (auto simp: sign_document_sign_def split: prod.splits sum.splits)

lemma sign_document_sign_surroundings:
  "same_surroundings w (snd (sign_document_sign L self w request meta h))"
  using sign_document_sign_world [of L self w request meta h]
    create_signature_surroundings [of w L self h]
  by (auto simp: sign_document_save_world
      intro: same_surroundings_trans [OF _ save_signature_surroundings])

lemma sign_document_sign_files:
  "q \<noteq> sidecar_path request \<Longrightarrow>
   files (snd (sign_document_sign L self w request meta h)) q = files w q"
  using sign_document_sign_world [of L self w request meta h]
  by (auto simp: sign_document_save_world save_signature_files)

lemma calculate_document_hash_world [simp]:
  "snd (calculate_document_hash w p) = enter (Calculate_document_hash p) w"
  by (simp add: calculate_document_hash_eq)

lemma sign_document_hash_world:
  "snd (sign_document_hash L self w request t)
       = enter (Calculate_document_hash (document_path request)) w
   \<or> (\<exists>meta h. snd (sign_document_hash L self w request t)
         = snd (sign_document_sign L self
             ((enter (Calculate_document_hash (document_path request)) w)
                \<lparr>ticks := Suc (ticks w)\<rparr>) request meta h))"
  by (auto simp: sign_document_hash_def calculate_document_hash_eq datetime_now_def
      split: prod.splits sum.splits)

lemma same_surroundings_tick [simp]:
  "same_surroundings w ((enter c w)\<lparr>ticks := n\<rparr>)"
  by (simp add: same_surroundings_def)

lemma sign_document_hash_surroundings:
  "same_surroundings w (snd (sign_document_hash L self w request t))"
  using sign_document_hash_world [of L self w request t]
    same_surroundings_trans [OF same_surroundings_tick sign_document_sign_surroundings]
  by auto

lemma sign_document_hash_files:
  "q \<noteq> sidecar_path request \<Longrightarrow>
   files (snd (sign_document_hash L self w request t)) q = files w q"
  using sign_document_hash_world [of L self w request t]
  by (auto simp: sign_document_sign_files)

lemma sign_document_world:
  "snd (sign_document L self w request) = snd (sign_document_try L self w request)"
  by (simp add: sign_document_def split: prod.splits sum.splits)

lemma sign_document_try_world:
  "snd (sign_document_try L self w request) = w
   \<or> (\<exists>t. snd (sign_document_try L self w request)
         = snd (sign_document_hash L self w request t))"
  by (auto simp: sign_document_try_def split: option.splits)

lemma sign_document_surroundings:
  "same_surroundings w (snd (sign_document L self w request))"
  using sign_document_try_world [of L self w request]
  by (auto simp: sign_document_world sign_document_hash_surroundings)

lemma sign_document_files:
  "q \<noteq> sidecar_path request \<Longrightarrow>
   files (snd (sign_document L self w request)) q = files w q"
  using sign_document_try_world [of L self w request]
  by (auto simp: sign_document_world sign_document_hash_files)

lemma sidecar_path_init [simp]:
  "sidecar_path (SignatureRequest_init p name email) = p @ ''.sig''"
  by (simp add: sidecar_path_def SignatureRequest_init_def truthy_path_def
      get_signature_file_path_def)

section \<open>When a signing succeeds\<close>

lemma succeeds_simps [simp]:
  "succeeds (Inl e) = False"
  "succeeds (Inr r) = success r"
  by (simp_all add: succeeds_def)

lemma sign_document_save_succeeds:
  "succeeds (fst (sign_document_save w request meta sig)) \<longleftrightarrow>
     files w (sidecar_path request) \<noteq> Some Directory
     \<and> sidecar_path request \<notin> unwritable w
     \<and> utf8_valid (json_dumps (signature_package sig meta))
     \<and> stdout_accepts w (Firma_guardada_en (sidecar_path request))"
  by (simp add: sign_document_save_def save_signature_def write_text_def print_line_def
      sidecar_path_def Let_def SignatureResult_init_def)

lemma sign_document_sign_succeeds:
  "succeeds (fst (sign_document_sign L self w request meta h)) \<longleftrightarrow>
     (case private_key self of
        None \<Rightarrow> False
      | Some k \<Rightarrow>
          (case pss_sign L k (entropy w (draws w)) h of
             None \<Rightarrow> False
           | Some sig \<Rightarrow>
               files w (sidecar_path request) \<noteq> Some Directory
               \<and> sidecar_path request \<notin> unwritable w
               \<and> utf8_valid (json_dumps (signature_package sig meta))
               \<and> stdout_accepts w (Firma_guardada_en (sidecar_path request))))"
  by (simp add: sign_document_sign_def create_signature_def Let_def
      sign_document_save_succeeds split: option.splits)

lemma sign_document_hash_succeeds:
  "succeeds (fst (sign_document_hash L self w request t)) \<longleftrightarrow>
     (case read_bytes w (document_path request) of
        Inl e \<Rightarrow> False
      | Inr bs \<Rightarrow>
     (case private_key self of
        None \<Rightarrow> False
      | Some k \<Rightarrow>
     (case pss_sign L k (entropy w (draws w)) (hex (sha256 bs)) of
        None \<Rightarrow> False
      | Some sig \<Rightarrow>
          files w (sidecar_path request) \<noteq> Some Directory
          \<and> sidecar_path request \<notin> unwritable w
          \<and> utf8_valid (json_dumps (signature_package sig
               (sign_metadata self request t (hex (sha256 bs)) (clock w (ticks w)))))
          \<and> stdout_accepts w (Firma_guardada_en (sidecar_path request)))))"
  by (simp add: sign_document_hash_def calculate_document_hash_eq datetime_now_def
      sign_document_sign_succeeds split: sum.splits option.splits)

lemma sign_document_try_succeeds:
  "succeeds (fst (sign_document_try L self w request)) \<longleftrightarrow> sign_steps_ok L self w request"
  by (simp add: sign_document_try_def sign_steps_ok_def sign_document_hash_succeeds
      SignatureResult_init_def split: option.splits)

lemma sign_document_succeeds:
  "succeeds (fst (sign_document L self w request)) \<longleftrightarrow> sign_steps_ok L self w request"
proof -
  have "succeeds (fst (sign_document L self w request))
      = succeeds (fst (sign_document_try L self w request))"
    by (simp add: sign_document_def sign_failed_def SignatureResult_init_def
        split: prod.splits sum.splits)
  then show ?thesis
    by (simp add: sign_document_try_succeeds)
qed

section \<open>Early failures of \<open>sign_document\<close>\<close>

lemma sign_document_missing:
  "\<not> path_exists w (document_path request) \<Longrightarrow>
   sign_document L self w request =
     (Inr ((SignatureResult_init False Documento_no_encontrado)
        \<lparr>error := Some (El_archivo_no_existe (document_path request))\<rparr>), w)"
  by (simp add: sign_document_def sign_document_try_def)

lemma sign_document_unsupported:
  "path_exists w (document_path request) \<Longrightarrow>
   detect_document_type (document_path request) = None \<Longrightarrow>
   sign_document L self w request =
     (Inr ((SignatureResult_init False Tipo_de_documento_no_soportado)
        \<lparr>error := Some Solo_se_soportan_archivos_txt_pdf_zip\<rparr>), w)"
  by (simp add: sign_document_def sign_document_try_def)

lemma detect_document_type_None:
  "detect_document_type p = None \<longleftrightarrow> lower (path_suffix p) \<notin> {''.txt'', ''.pdf'', ''.zip''}"
  by (simp add: detect_document_type_def Let_def)

section \<open>What a failed signing leaves behind\<close>

lemma write_text_failed_files:
  "fst (write_text w p txt) = Inl e \<Longrightarrow> e \<noteq> UnicodeEncodeError \<Longrightarrow>
   files (snd (write_text w p txt)) = files w"
  by (auto simp: write_text_def split: if_splits)

lemma save_signature_failed_files:
  assumes "fst (save_signature w p sig meta) = Inl e"
    and "e \<noteq> UnicodeEncodeError" and "e \<noteq> StdoutError"
  shows "files (snd (save_signature w p sig meta)) = files w"
proof -
  let ?w = "enter (Save_signature p) w"
  let ?txt = "json_dumps (signature_package sig meta)"
  from assms have "fst (write_text ?w p ?txt) = Inl e"
    by (auto simp: save_signature_def Let_def print_line_def split: prod.splits sum.splits if_splits)
  from write_text_failed_files [OF this assms(2)] show ?thesis
    by (simp add: save_signature_world)
qed

lemma sign_document_save_failed_files:
  assumes "fst (sign_document_save w request meta sig) = Inl e"
    and "e \<noteq> UnicodeEncodeError" and "e \<noteq> StdoutError"
  shows "files (snd (sign_document_save w request meta sig)) = files w"
proof -
  from assms(1) have "fst (save_signature w (sidecar_path request) sig meta) = Inl e"
    by (auto simp: sign_document_save_def sidecar_path_def Let_def split: prod.splits sum.splits)
  from save_signature_failed_files [OF this assms(2,3)] show ?thesis
    by (simp add: sign_document_save_world)
qed

lemma sign_document_sign_failed_files:
  assumes "fst (sign_document_sign L self w request meta h) = Inl e"
    and "e \<noteq> UnicodeEncodeError" and "e \<noteq> StdoutError"
  shows "files (snd (sign_document_sign L self w request meta h)) = files w"
proof -
  obtain x w1 where c: "create_signature L self w h = (x, w1)"
    by (cases "create_signature L self w h")
  then have w1: "files w1 = files w"
    using create_signature_files [of L self w h] by simp
  show ?thesis
  proof (cases x)
    case (Inl e')
    with c w1 show ?thesis
      by (simp add: sign_document_sign_def)
  next
    case (Inr sig)
    with c have eq: "sign_document_sign L self w request meta h
        = sign_document_save w1 request meta sig"
      by (simp add: sign_document_sign_def)
    from sign_document_save_failed_files [OF assms(1) [unfolded eq] assms(2,3)] w1
    show ?thesis
      by (simp add: eq)
  qed
qed

lemma sign_document_hash_failed_files:
  assumes "fst (sign_document_hash L self w request t) = Inl e"
    and "e \<noteq> UnicodeEncodeError" and "e \<noteq> StdoutError"
  shows "files (snd (sign_document_hash L self w request t)) = files w"
proof (cases "read_bytes w (document_path request)")
  case (Inl e')
  then show ?thesis
    by (simp add: sign_document_hash_def calculate_document_hash_eq)
next
  case (Inr bs)
  let ?w = "(enter (Calculate_document_hash (document_path request)) w)\<lparr>ticks := Suc (ticks w)\<rparr>"
  let ?meta = "sign_metadata self request t (hex (sha256 bs)) (clock w (ticks w))"
  from Inr have eq: "sign_document_hash L self w request t
      = sign_document_sign L self ?w request ?meta (hex (sha256 bs))"
    by (simp add: sign_document_hash_def calculate_document_hash_eq datetime_now_def)
  from sign_document_sign_failed_files [OF assms(1) [unfolded eq] assms(2,3)] show ?thesis
    by (simp add: eq)
qed

lemma sign_document_failed_files:
  assumes "sign_document L self w request = (Inr r, w')" and "\<not> success r"
    and "error r \<noteq> Some (Str UnicodeEncodeError)" and "error r \<noteq> Some (Str StdoutError)"
  shows "files w' = files w"
proof (cases "path_exists w (document_path request)")
  case False
  with assms(1) show ?thesis
    by (simp add: sign_document_missing)
next
  case True
  show ?thesis
  proof (cases "detect_document_type (document_path request)")
    case None
    with True assms(1) show ?thesis
      by (simp add: sign_document_unsupported)
  next
    case (Some t)
    with True have eq: "sign_document_try L self w request = sign_document_hash L self w request t"
      by (simp add: sign_document_try_def)
    show ?thesis
    proof (cases "fst (sign_document_hash L self w request t)")
      case (Inl e)
      with assms(1) eq have r: "r = sign_failed e"
        and w': "w' = snd (sign_document_hash L self w request t)"
        by (auto simp: sign_document_def split: prod.splits sum.splits)
      from r assms(3,4) have "e \<noteq> UnicodeEncodeError" "e \<noteq> StdoutError"
        by (auto simp: sign_failed_def)
      from sign_document_hash_failed_files [OF Inl this] w' show ?thesis
        by simp
    next
      case (Inr r')
      with assms(1) eq have "r' = r"
        by (auto simp: sign_document_def split: prod.splits sum.splits)
      with Inr have "succeeds (fst (sign_document_hash L self w request t)) = success r"
        by simp
      moreover from Inr have "success r'"
        by (auto simp: sign_document_hash_def sign_document_sign_def
            sign_document_save_def Let_def SignatureResult_init_def
            split: prod.splits sum.splits)
      ultimately show ?thesis
        using assms(2) \<open>r' = r\<close> by simp
    qed
  qed
qed

section \<open>A standard output that takes every line\<close>

lemma sign_document_save_not_stdout:
  "\<forall>l. stdout_accepts w l \<Longrightarrow> fst (sign_document_save w request meta sig) \<noteq> Inl StdoutError"
  by (simp add: sign_document_save_def save_signature_def write_text_def print_line_def Let_def)

lemma sign_document_sign_not_stdout:
  assumes "\<forall>l. stdout_accepts w l"
  shows "fst (sign_document_sign L self w request meta h) \<noteq> Inl StdoutError"
proof -
  have "fst (sign_document_save ((enter Create_signature w)\<lparr>draws := n\<rparr>) request meta sig)
      \<noteq> Inl StdoutError" for n sig
    using assms by (intro sign_document_save_not_stdout) simp
  then show ?thesis
    by (simp add: sign_document_sign_def create_signature_def Let_def split: option.splits)
qed

lemma sign_document_hash_not_stdout:
  assumes "\<forall>l. stdout_accepts w l"
  shows "fst (sign_document_hash L self w request t) \<noteq> Inl StdoutError"
proof -
  have "fst (sign_document_sign L self ((enter c w)\<lparr>ticks := n\<rparr>) request meta h)
      \<noteq> Inl StdoutError" for c n meta h
    using assms by (intro sign_document_sign_not_stdout) simp
  then show ?thesis
    by (simp add: sign_document_hash_def calculate_document_hash_eq datetime_now_def
        read_bytes_def split: sum.splits option.splits node.splits)
qed

lemma sign_document_accepted_error:
  assumes "\<forall>l. stdout_accepts w l" and "sign_document L self w request = (Inr r, w')"
  shows "error r \<noteq> Some (Str StdoutError)"
proof (cases "path_exists w (document_path request)")
  case False
  with assms(2) show ?thesis
    by (auto simp: sign_document_missing SignatureResult_init_def)
next
  case True
  show ?thesis
  proof (cases "detect_document_type (document_path request)")
    case None
    with True assms(2) show ?thesis
      by (auto simp: sign_document_unsupported SignatureResult_init_def)
  next
    case (Some t)
    with True have eq: "sign_document_try L self w request = sign_document_hash L self w request t"
      by (simp add: sign_document_try_def)
    show ?thesis
    proof (cases "fst (sign_document_hash L self w request t)")
      case (Inl e)
      with assms(2) eq have r: "r = sign_failed e"
        by (auto simp: sign_document_def split: prod.splits sum.splits)
      from Inl sign_document_hash_not_stdout [OF assms(1), of L self request t]
      have "e \<noteq> StdoutError"
        by auto
      with r show ?thesis
        by (simp add: sign_failed_def)
    next
      case (Inr r')
      with assms(2) eq have "r' = r"
        by (auto simp: sign_document_def split: prod.splits sum.splits)
      moreover from Inr have "success r'"
        by (auto simp: sign_document_hash_def sign_document_sign_def
            sign_document_save_def Let_def SignatureResult_init_def
            split: prod.splits sum.splits)
      moreover have "sign_result_wf r"
        using sign_document_wf [of L self w request r] assms(2) by simp
      ultimately show ?thesis
        by (simp add: sign_result_wf_def)
    qed
  qed
qed

section \<open>When a verification succeeds\<close>

lemma verify_result_fails [simp]: "\<not> success (verify_result st msg err)"
  by (simp add: verify_result_def SignatureResult_init_def)

lemma verify_signature_True:
  "fst (verify_signature L self w h sig) = Inr True \<longleftrightarrow>
     (case public_key self of None \<Rightarrow> False | Some k \<Rightarrow> pss_verify L k sig h = Inr True)"
  by (auto simp: verify_signature_def verify_signature_except_def Let_def print_line_def
      split: option.splits sum.splits)

lemma verify_document_crypto_succeeds:
  "succeeds (fst (verify_document_crypto L self w meta h sig)) \<longleftrightarrow>
     fst (verify_signature L self w h sig) = Inr True"
  by (cases "verify_signature L self w h sig")
     (auto simp: verify_document_crypto_def SignatureResult_init_def split: sum.splits)

lemma verify_document_hash_succeeds:
  "succeeds (fst (verify_document_hash L self w doc_path meta sig)) \<longleftrightarrow>
     (case read_bytes w doc_path of
        Inl e \<Rightarrow> False
      | Inr bs \<Rightarrow>
          JStr (hex (sha256 bs)) = document_hash meta
          \<and> (case public_key self of
               None \<Rightarrow> False
             | Some k \<Rightarrow> pss_verify L k sig (hex (sha256 bs)) = Inr True))"
proof (cases "read_bytes w doc_path")
  case (Inl e)
  then show ?thesis
    by (simp add: verify_document_hash_def verifier_calculate_document_hash_eq
        calculate_document_hash_eq)
next
  case (Inr bs)
  from Inr show ?thesis
    by (simp add: verify_document_hash_def verifier_calculate_document_hash_eq
        calculate_document_hash_eq verify_document_crypto_succeeds verify_signature_True)
qed

section \<open>The key that a verification uses\<close>

lemma load_public_key_Some:
  assumes "read_bytes w p = Inr pem" and "load_pem_public_key L pem = Some k"
    and "stdout_accepts w (Clave_publica_cargada_desde p)"
  shows "load_public_key L self w p
    = (Inr (Some k), self\<lparr>public_key := Some k\<rparr>, enter (Load_public_key p) w)"
proof -
  from assms(1) have "path_exists w p"
    by (auto simp: read_bytes_def path_exists_def split: option.splits)
  with assms show ?thesis
    by (simp add: load_public_key_def Let_def print_line_def)
qed

lemma load_public_key_None:
  assumes "\<not> (\<exists>pem k. read_bytes w p = Inr pem \<and> load_pem_public_key L pem = Some k
      \<and> stdout_accepts w (Clave_publica_cargada_desde p))"
  shows "\<exists>x self'. load_public_key L self w p = (x, self', enter (Load_public_key p) w)
      \<and> (x = Inr None \<or> (\<exists>e. x = Inl e))"
  using assms
  by (auto simp: load_public_key_def load_public_key_except_def Let_def print_line_def
      split: sum.splits option.splits)

lemma resolve_public_key_own:
  "\<not> truthy_path (public_key_path request) \<Longrightarrow>
   resolve_public_key L self w request = (Inr (public_key self), self, w)"
  by (simp add: resolve_public_key_def)

lemma resolve_public_key_Some:
  assumes "public_key_path request = Some p" and "p \<noteq> []"
    and "usable_key L self w request = Some k"
  shows "resolve_public_key L self w request
    = (Inr (Some k), self\<lparr>public_key := Some k\<rparr>, enter (Load_public_key p) w)"
proof -
  from assms have t: "truthy_path (public_key_path request)"
    by (simp add: truthy_path_def)
  from assms t obtain pem where "read_bytes w p = Inr pem"
    and "load_pem_public_key L pem = Some k"
    and "stdout_accepts w (Clave_publica_cargada_desde p)"
    by (auto simp: usable_key_def split: sum.splits if_splits)
  from load_public_key_Some [OF this] assms(1) t show ?thesis
    by (simp add: resolve_public_key_def)
qed

lemma resolve_public_key_None:
  assumes "public_key_path request = Some p" and "p \<noteq> []"
    and "usable_key L self w request = None"
  shows "\<exists>x self'. resolve_public_key L self w request = (x, self', enter (Load_public_key p) w)
      \<and> (x = Inr None \<or> (\<exists>e. x = Inl e))"
proof -
  from assms have t: "truthy_path (public_key_path request)"
    by (simp add: truthy_path_def)
  from assms t have "\<not> (\<exists>pem k. read_bytes w p = Inr pem \<and> load_pem_public_key L pem = Some k
      \<and> stdout_accepts w (Clave_publica_cargada_desde p))"
    by (auto simp: usable_key_def split: sum.splits if_splits)
  from load_public_key_None [OF this, of self] assms(1) t show ?thesis
    by (simp add: resolve_public_key_def)
qed

lemma truthy_path_Some: "truthy_path x \<longleftrightarrow> (\<exists>p. x = Some p \<and> p \<noteq> [])"
  by (simp add: truthy_path_def split: option.splits)

lemma verify_document_key_succeeds:
  "succeeds (fst (verify_document_key L self w request doc_path meta sig)) \<longleftrightarrow>
     (case usable_key L self w request of
        None \<Rightarrow> False
      | Some k \<Rightarrow>
          (case read_bytes w doc_path of
             Inl e \<Rightarrow> False
           | Inr bs \<Rightarrow>
               JStr (hex (sha256 bs)) = document_hash meta
               \<and> pss_verify L k sig (hex (sha256 bs)) = Inr True))"
proof (cases "truthy_path (public_key_path request)")
  case False
  then have u: "usable_key L self w request = public_key self"
    by (simp add: usable_key_def)
  from False show ?thesis
    by (simp add: verify_document_key_def resolve_public_key_own u
        verify_document_hash_succeeds split: option.splits sum.splits)
next
  case True
  then obtain p where p: "public_key_path request = Some p" "p \<noteq> []"
    by (auto simp: truthy_path_Some)
  show ?thesis
  proof (cases "usable_key L self w request")
    case None
    from resolve_public_key_None [OF p None] obtain x self'
      where "resolve_public_key L self w request = (x, self', enter (Load_public_key p) w)"
        and "x = Inr None \<or> (\<exists>e. x = Inl e)"
      by blast
    with None True show ?thesis
      by (auto simp: verify_document_key_def)
  next
    case (Some k)
    from resolve_public_key_Some [OF p Some] Some True show ?thesis
      by (simp add: verify_document_key_def verify_document_hash_succeeds
          split: sum.splits)
  qed
qed

lemma load_signature_file_Some:
  "fst (load_signature_file w p) = Inr (Some package) \<longleftrightarrow>
     path_exists w p \<and> (\<exists>txt. read_text w p = Inr txt \<and> json_loads txt = Some package)"
  by (auto simp: load_signature_file_def load_signature_file_except_def Let_def print_line_def
      split: sum.splits option.splits)

lemma load_signature_file_world [simp]:
  "snd (load_signature_file w p) = enter (Load_signature_file p) w"
  by (auto simp: load_signature_file_def load_signature_file_except_def Let_def
      split: sum.splits option.splits)

lemma usable_key_enter [simp]: "usable_key L self (enter c w) request = usable_key L self w request"
  by (simp add: usable_key_def split: option.splits sum.splits)

lemma verify_document_load_succeeds:
  "succeeds (fst (verify_document_load L self w request doc_path signature_file_path)) \<longleftrightarrow>
     path_exists w signature_file_path
     \<and> (case read_text w signature_file_path of
          Inl e \<Rightarrow> False
        | Inr txt \<Rightarrow>
     (case json_loads txt of
          None \<Rightarrow> False
        | Some package \<Rightarrow>
            truthy package
            \<and> (case extract_signature package of
                 Inl e \<Rightarrow> False
               | Inr (sig, meta) \<Rightarrow>
            (case usable_key L self w request of
                 None \<Rightarrow> False
               | Some k \<Rightarrow>
            (case read_bytes w doc_path of
                 Inl e \<Rightarrow> False
               | Inr bs \<Rightarrow>
                   JStr (hex (sha256 bs)) = document_hash meta
                   \<and> pss_verify L k sig (hex (sha256 bs)) = Inr True)))))"
proof -
  obtain x w1 where l: "load_signature_file w signature_file_path = (x, w1)"
    by (cases "load_signature_file w signature_file_path")
  then have w1: "w1 = enter (Load_signature_file signature_file_path) w"
    using load_signature_file_world [of w signature_file_path] by simp
  show ?thesis
  proof (cases "\<exists>package. x = Inr (Some package)")
    case False
    with l load_signature_file_Some [of w signature_file_path]
    have n: "\<not> (path_exists w signature_file_path
        \<and> (\<exists>txt package. read_text w signature_file_path = Inr txt
              \<and> json_loads txt = Some package))"
      by auto
    from False l have "\<not> succeeds (fst (verify_document_load L self w request doc_path
        signature_file_path))"
      by (cases x) (auto simp: verify_document_load_def split: option.splits)
    with n show ?thesis
      by (auto split: sum.splits option.splits)
  next
    case True
    then obtain package where x: "x = Inr (Some package)"
      by blast
    with l load_signature_file_Some [of w signature_file_path package]
    obtain body where ex: "path_exists w signature_file_path"
      and t1: "read_text w signature_file_path = Inr body"
      and t2: "json_loads body = Some package"
      by auto
    from l x w1 ex t1 t2 show ?thesis
      by (simp add: verify_document_load_def verify_document_key_succeeds
          split: sum.splits prod.splits option.splits)
  qed
qed

lemma verify_document_try_succeeds:
  "succeeds (fst (verify_document_try L self w request)) \<longleftrightarrow> verify_steps_ok L self w request"
  by (simp add: verify_document_try_def verify_steps_ok_def verify_document_load_succeeds
      split: prod.splits)

lemma verify_document_succeeds:
  "succeeds (fst (verify_document L self w request)) \<longleftrightarrow> verify_steps_ok L self w request"
proof -
  have "succeeds (fst (verify_document L self w request))
      = succeeds (fst (verify_document_try L self w request))"
    by (simp add: verify_document_def verify_failed_def split: prod.splits sum.splits)
  then show ?thesis
    by (simp add: verify_document_try_succeeds)
qed

section \<open>The batches\<close>

lemma sign_batch_loop_Cons_Inr:
  assumes "sign_batch_loop L self w n i (p # ps) name email acc = (Inr rs, w'')"
  shows "\<exists>r w'. sign_document L self w (SignatureRequest_init p name email) = (Inr r, w')
    \<and> sign_batch_loop L self w' n (Suc i) ps name email (acc @ [r]) = (Inr rs, w'')"
  using assms by (auto split: sum.splits prod.splits)

lemma sign_batch_loop_wf:
  "sign_batch_loop L self w n i paths name email acc = (Inr rs, w') \<Longrightarrow>
   list_all sign_result_wf acc \<Longrightarrow> list_all sign_result_wf rs"
proof (induction paths arbitrary: w i acc)
  case Nil
  then show ?case by simp
next
  case (Cons p ps)
  from sign_batch_loop_Cons_Inr [OF Cons.prems(1)] obtain r w1
    where s: "sign_document L self w (SignatureRequest_init p name email) = (Inr r, w1)"
      and l: "sign_batch_loop L self w1 n (Suc i) ps name email (acc @ [r]) = (Inr rs, w')"
    by blast
  from s have "sign_result_wf r"
    using sign_document_wf [of L self w "SignatureRequest_init p name email" r] by simp
  with Cons.prems(2) have "list_all sign_result_wf (acc @ [r])"
    by simp
  from Cons.IH [OF l this] show ?case .
qed

lemma sign_batch_Inr:
  assumes "fst (sign_batch L self w paths name email) = Inr rs"
  shows "\<exists>w'. sign_batch_loop L self w (length paths) 1 paths name email [] = (Inr rs, w')"
  using assms
  by (auto simp: sign_batch_def bindE_def split: sum.splits prod.splits)

lemma sign_batch_wf:
  "fst (sign_batch L self w paths name email) = Inr rs \<Longrightarrow> list_all sign_result_wf rs"
  using sign_batch_Inr [of L self w paths name email rs]
    sign_batch_loop_wf [of L self w "length paths" 1 paths name email "[]" rs]
  by auto

lemma verify_batch_loop_Cons_Inr:
  assumes "verify_batch_loop L self w n i (p # ps) acc = (Inr rs, self'', w'')"
  shows "\<exists>r self' w'. verify_document L self w (VerificationRequest_init p) = (Inr r, self', w')
    \<and> verify_batch_loop L self' w' n (Suc i) ps (acc @ [r]) = (Inr rs, self'', w'')"
  using assms by (auto split: sum.splits prod.splits)

lemma verify_batch_loop_wf:
  "verify_batch_loop L self w n i paths acc = (Inr rs, self', w') \<Longrightarrow>
   list_all verify_result_wf acc \<Longrightarrow> list_all verify_result_wf rs"
proof (induction paths arbitrary: self w i acc)
  case Nil
  then show ?case by simp
next
  case (Cons p ps)
  from verify_batch_loop_Cons_Inr [OF Cons.prems(1)] obtain r self1 w1
    where s: "verify_document L self w (VerificationRequest_init p) = (Inr r, self1, w1)"
      and l: "verify_batch_loop L self1 w1 n (Suc i) ps (acc @ [r]) = (Inr rs, self', w')"
    by blast
  from s have "verify_result_wf r"
    using verify_document_wf [of L self w "VerificationRequest_init p" r] by simp
  with Cons.prems(2) have "list_all verify_result_wf (acc @ [r])"
    by simp
  from Cons.IH [OF l this] show ?case .
qed

lemma verify_batch_Inr:
  assumes "fst (verify_batch L self w paths) = Inr rs"
  shows "\<exists>self' w'. verify_batch_loop L self w (length paths) 1 paths [] = (Inr rs, self', w')"
  using assms
  by (auto simp: verify_batch_def bindE_def split: sum.splits prod.splits)

lemma verify_batch_wf:
  "fst (verify_batch L self w paths) = Inr rs \<Longrightarrow> list_all verify_result_wf rs"
  using verify_batch_Inr [of L self w paths rs]
    verify_batch_loop_wf [of L self w "length paths" 1 paths "[]" rs]
  by auto

section \<open>\<open>sign_batch\<close> when every line is printed\<close>

lemma sign_each_Nil [simp]: "sign_each L self w [] name email = w"
  by (simp add: sign_each_def)

lemma sign_each_Cons [simp]:
  "sign_each L self w (p # ps) name email =
     sign_each L self (snd (sign_document L self w (SignatureRequest_init p name email))) ps
       name email"
  by (simp add: sign_each_def)

lemma sign_each_snoc:
  "sign_each L self w (ps @ [p]) name email =
     snd (sign_document L self (sign_each L self w ps name email)
       (SignatureRequest_init p name email))"
  by (simp add: sign_each_def)

lemma sign_each_Suc:
  "i < length paths \<Longrightarrow>
   sign_each L self w (take (Suc i) paths) name email =
     snd (sign_document L self (sign_each L self w (take i paths) name email)
       (SignatureRequest_init (paths ! i) name email))"
  by (simp add: take_Suc_conv_app_nth sign_each_snoc)

lemma sign_each_surroundings: "same_surroundings w (sign_each L self w paths name email)"
proof (induction paths arbitrary: w)
  case Nil
  show ?case by simp
next
  case (Cons p ps)
  show ?case
    using same_surroundings_trans [OF sign_document_surroundings Cons.IH]
    by simp
qed

lemma accepts_all_surroundings:
  "same_surroundings w w' \<Longrightarrow> \<forall>l. stdout_accepts w l \<Longrightarrow> \<forall>l. stdout_accepts w' l"
  by (simp add: same_surroundings_def)

lemma sign_batch_loop_accepted:
  assumes "\<forall>l. stdout_accepts w l"
  shows "\<exists>rs. sign_batch_loop L self w n i paths name email acc
        = (Inr (acc @ rs), sign_each L self w paths name email)
    \<and> length rs = length paths
    \<and> (\<forall>j < length paths.
          fst (sign_document L self (sign_each L self w (take j paths) name email)
                (SignatureRequest_init (paths ! j) name email)) = Inr (rs ! j))"
  using assms
proof (induction paths arbitrary: w i acc)
  case Nil
  then show ?case by simp
next
  case (Cons p ps)
  obtain r where r: "fst (sign_document L self w (SignatureRequest_init p name email)) = Inr r"
    using sign_document_returns by blast
  define w1 where "w1 = snd (sign_document L self w (SignatureRequest_init p name email))"
  from r w1_def have s: "sign_document L self w (SignatureRequest_init p name email) = (Inr r, w1)"
    by (simp add: prod_eq_iff)
  have "same_surroundings w w1"
    unfolding w1_def by (rule sign_document_surroundings)
  from accepts_all_surroundings [OF this Cons.prems] have a: "\<forall>l. stdout_accepts w1 l" .
  from Cons.IH [OF a, of "Suc i" "acc @ [r]"] obtain rs
    where l: "sign_batch_loop L self w1 n (Suc i) ps name email (acc @ [r])
        = (Inr ((acc @ [r]) @ rs), sign_each L self w1 ps name email)"
      and n: "length rs = length ps"
      and j: "\<forall>j < length ps.
          fst (sign_document L self (sign_each L self w1 (take j ps) name email)
                (SignatureRequest_init (ps ! j) name email)) = Inr (rs ! j)"
    by blast
  have 1: "sign_batch_loop L self w n i (p # ps) name email acc
        = (Inr (acc @ r # rs), sign_each L self w (p # ps) name email)"
    using Cons.prems a s l by (simp add: print_line_def)
  have 2: "fst (sign_document L self (sign_each L self w (take k (p # ps)) name email)
        (SignatureRequest_init ((p # ps) ! k) name email)) = Inr ((r # rs) ! k)"
    if "k < length (p # ps)" for k
  proof (cases k)
    case 0
    with r show ?thesis by simp
  next
    case (Suc m)
    with that j s show ?thesis by simp
  qed
  from 1 2 n show ?case
    by (intro exI [of _ "r # rs"]) simp
qed

lemma sign_batch_accepted:
  assumes "\<forall>l. stdout_accepts w l"
  shows "\<exists>rs. sign_batch L self w paths name email
        = (Inr rs, sign_each L self w paths name email)
    \<and> length rs = length paths
    \<and> (\<forall>j < length paths.
          fst (sign_document L self (sign_each L self w (take j paths) name email)
                (SignatureRequest_init (paths ! j) name email)) = Inr (rs ! j))"
proof -
  from sign_batch_loop_accepted [OF assms, of L self "length paths" 1 paths name email "[]"]
  obtain rs
    where l: "sign_batch_loop L self w (length paths) 1 paths name email []
        = (Inr rs, sign_each L self w paths name email)"
      and n: "length rs = length paths"
      and j: "\<forall>j < length paths.
          fst (sign_document L self (sign_each L self w (take j paths) name email)
                (SignatureRequest_init (paths ! j) name email)) = Inr (rs ! j)"
    by auto
  from accepts_all_surroundings [OF sign_each_surroundings assms]
  have a: "\<forall>l. stdout_accepts (sign_each L self w paths name email) l" .
  from assms a l have "sign_batch L self w paths name email
        = (Inr rs, sign_each L self w paths name email)"
    by (simp add: sign_batch_def print_line_def bindE_def)
  with n j show ?thesis
    by blast
qed

text \<open>A standard output that takes neither the check mark nor the cross.\<close>

lemma sign_batch_refused:
  assumes "stdout_accepts w (Firmando_documentos (Suc (length ps)))"
    and "stdout_accepts w (Firmando 1 (Suc (length ps)) p)"
    and "\<not> stdout_accepts w Firmado_exitosamente"
    and "\<forall>err. \<not> stdout_accepts w (Error_de_firma err)"
  shows "fst (sign_batch L self w (p # ps) name email) = Inl StdoutError"
proof -
  obtain r where r: "fst (sign_document L self w (SignatureRequest_init p name email)) = Inr r"
    using sign_document_returns by blast
  define w1 where "w1 = snd (sign_document L self w (SignatureRequest_init p name email))"
  from r w1_def have s: "sign_document L self w (SignatureRequest_init p name email) = (Inr r, w1)"
    by (simp add: prod_eq_iff)
  have "same_surroundings w w1"
    unfolding w1_def by (rule sign_document_surroundings)
  then have "stdout_accepts w1 = stdout_accepts w"
    by (simp add: same_surroundings_def)
  with assms s show ?thesis
    by (simp add: sign_batch_def print_line_def)
qed

section \<open>The claims\<close>

subsection \<open>C9: no operation produces the status \<open>EXPIRED\<close>\<close>

text \<open>
  Claim C9. For every input of \<open>sign_document\<close>, \<open>sign_batch\<close>, \<open>verify_document\<close> and
  \<open>verify_batch\<close>, the status of a returned \<open>SignatureResult\<close> is never \<open>EXPIRED\<close>, although
  \<open>EXPIRED\<close> is a member of \<open>SignatureStatus\<close>. The two single operations always return
  a result; a batch that returns, returns a list of such results.
\<close>

theorem never_expired:
  "(\<exists>r. fst (sign_document L signer w request) = Inr r \<and> status r \<noteq> Some EXPIRED)
   \<and> (\<exists>r. fst (verify_document L verifier w vrequest) = Inr r \<and> status r \<noteq> Some EXPIRED)
   \<and> (\<forall>rs. fst (sign_batch L signer w paths name email) = Inr rs
         \<longrightarrow> (\<forall>r \<in> set rs. status r \<noteq> Some EXPIRED))
   \<and> (\<forall>rs. fst (verify_batch L verifier w paths) = Inr rs
         \<longrightarrow> (\<forall>r \<in> set rs. status r \<noteq> Some EXPIRED))"
proof -
  have s: "status r \<noteq> Some EXPIRED" if "sign_result_wf r" for r
    using that by (auto simp: sign_result_wf_def split: if_splits)
  have v: "status r \<noteq> Some EXPIRED" if "verify_result_wf r" for r
    using that by (auto simp: verify_result_wf_def split: if_splits)
  have 1: "\<exists>r. fst (sign_document L signer w request) = Inr r \<and> status r \<noteq> Some EXPIRED"
    using sign_document_returns [of L signer w request] s [OF sign_document_wf] by blast
  have 2: "\<exists>r. fst (verify_document L verifier w vrequest) = Inr r \<and> status r \<noteq> Some EXPIRED"
    using verify_document_returns [of L verifier w vrequest] v [OF verify_document_wf] by blast
  have 3: "\<forall>r \<in> set rs. status r \<noteq> Some EXPIRED"
    if "fst (sign_batch L signer w paths name email) = Inr rs" for rs
    using sign_batch_wf [OF that] s by (auto simp: list_all_iff)
  have 4: "\<forall>r \<in> set rs. status r \<noteq> Some EXPIRED"
    if "fst (verify_batch L verifier w paths) = Inr rs" for rs
    using verify_batch_wf [OF that] v by (auto simp: list_all_iff)
  from 1 2 3 4 show ?thesis
    by blast
qed

theorem never_expired_witness:
  "(\<exists>r. fst (sign_document demo_crypto demo_signer demo_world ada_request) = Inr r
        \<and> status r \<noteq> Some EXPIRED)
   \<and> (\<exists>r. fst (verify_document demo_crypto demo_verifier demo_world
                 (VerificationRequest_init ''doc.txt'')) = Inr r
        \<and> status r \<noteq> Some EXPIRED)
   \<and> (\<exists>rs. fst (sign_batch demo_crypto demo_signer demo_world
                  [''doc.txt'', ''missing.txt'', ''b.pdf''] ''Ada'' ''ada@example.com'') = Inr rs
        \<and> length rs = 3 \<and> list_all (\<lambda>r. status r \<noteq> Some EXPIRED) rs)
   \<and> (\<exists>rs. fst (verify_batch demo_crypto demo_verifier demo_world
                  [''doc.txt'', ''missing.txt'', ''b.pdf'']) = Inr rs
        \<and> length rs = 3 \<and> list_all (\<lambda>r. status r \<noteq> Some EXPIRED) rs)"
proof -
  note T = never_expired [of demo_crypto demo_signer demo_world ada_request demo_verifier
      "VerificationRequest_init ''doc.txt''" "[''doc.txt'', ''missing.txt'', ''b.pdf'']"
      "''Ada''" "''ada@example.com''"]
  have "\<forall>l. stdout_accepts demo_world l"
    by (simp add: demo_world_def)
  from sign_batch_accepted [OF this, of demo_crypto demo_signer
      "[''doc.txt'', ''missing.txt'', ''b.pdf'']" "''Ada''" "''ada@example.com''"]
  obtain rs where rs: "fst (sign_batch demo_crypto demo_signer demo_world
      [''doc.txt'', ''missing.txt'', ''b.pdf''] ''Ada'' ''ada@example.com'') = Inr rs"
    and n: "length rs = 3"
    by auto
  have "case fst (verify_batch demo_crypto demo_verifier demo_world
      [''doc.txt'', ''missing.txt'', ''b.pdf'']) of Inl e \<Rightarrow> False | Inr vs \<Rightarrow> length vs = 3"
    by code_simp
  then obtain vs where vs: "fst (verify_batch demo_crypto demo_verifier demo_world
      [''doc.txt'', ''missing.txt'', ''b.pdf'']) = Inr vs"
    and m: "length vs = 3"
    by (auto split: sum.splits)
  from T rs have "list_all (\<lambda>r. status r \<noteq> Some EXPIRED) rs"
    by (simp add: list_all_iff)
  moreover from T vs have "list_all (\<lambda>r. status r \<noteq> Some EXPIRED) vs"
    by (simp add: list_all_iff)
  ultimately show ?thesis
    using T rs vs n m by blast
qed

subsection \<open>C8: the status of a result\<close>

text \<open>
  Claim C8 says that every result of \<open>sign_document\<close> and \<open>verify_document\<close> carries one of
  the five statuses, the failure results included. A failure result of \<open>sign_document\<close>
  is built without a status, so its status is \<^verbatim>\<open>None\<close>: signing a document that does not
  exist is an example.
\<close>

theorem sign_failure_status_counterexample:
  "\<exists>r. fst (sign_document demo_crypto demo_signer demo_world
          (SignatureRequest_init ''missing.txt'' ''Ada'' ''ada@example.com'')) = Inr r
     \<and> status r \<notin> {Some VALID, Some INVALID, Some TAMPERED, Some EXPIRED, Some KEY_MISMATCH}"
proof -
  have "\<not> path_exists demo_world
      (document_path (SignatureRequest_init ''missing.txt'' ''Ada'' ''ada@example.com''))"
    by code_simp
  then show ?thesis
    by (simp add: sign_document_missing SignatureResult_init_def)
qed

text \<open>
  Claim C8, amended. Every result of \<open>verify_document\<close> carries one of the five statuses.
  A result of \<open>sign_document\<close> carries \<open>VALID\<close> when it reports success, and no status
  (\<^verbatim>\<open>None\<close>) when it reports a failure.
\<close>

theorem result_status:
  "(\<exists>r. fst (verify_document L verifier w vrequest) = Inr r
      \<and> status r \<in> {Some VALID, Some INVALID, Some TAMPERED, Some EXPIRED, Some KEY_MISMATCH})
   \<and> (\<exists>r. fst (sign_document L signer w request) = Inr r
      \<and> status r = (if success r then Some VALID else None))"
proof -
  obtain v where v: "fst (verify_document L verifier w vrequest) = Inr v"
    using verify_document_returns by blast
  obtain s where s: "fst (sign_document L signer w request) = Inr s"
    using sign_document_returns by blast
  from verify_document_wf [OF v]
  have "status v \<in> {Some VALID, Some INVALID, Some TAMPERED, Some EXPIRED, Some KEY_MISMATCH}"
    by (auto simp: verify_result_wf_def split: if_splits)
  moreover from sign_document_wf [OF s]
  have "status s = (if success s then Some VALID else None)"
    by (auto simp: sign_result_wf_def split: if_splits)
  ultimately show ?thesis
    using v s by blast
qed

theorem result_status_witness:
  "(\<exists>r. fst (verify_document demo_crypto keyless_verifier demo_world
             (VerificationRequest_init ''missing.txt'')) = Inr r
      \<and> status r \<in> {Some VALID, Some INVALID, Some TAMPERED, Some EXPIRED, Some KEY_MISMATCH})
   \<and> (\<exists>r. fst (sign_document demo_crypto demo_signer demo_world
             (SignatureRequest_init ''missing.txt'' ''Ada'' ''ada@example.com'')) = Inr r
      \<and> \<not> success r \<and> status r = None)"
proof -
  have "\<not> sign_steps_ok demo_crypto demo_signer demo_world
      (SignatureRequest_init ''missing.txt'' ''Ada'' ''ada@example.com'')"
    by code_simp
  then have "\<not> succeeds (fst (sign_document demo_crypto demo_signer demo_world
      (SignatureRequest_init ''missing.txt'' ''Ada'' ''ada@example.com'')))"
    by (simp add: sign_document_succeeds)
  then show ?thesis
    using result_status [of demo_crypto keyless_verifier demo_world
        "VerificationRequest_init ''missing.txt''" demo_signer
        "SignatureRequest_init ''missing.txt'' ''Ada'' ''ada@example.com''"]
    by auto
qed

subsection \<open>C5: a failure is a structured result\<close>



subsection \<open>C6: an unsupported type is rejected before any hashing\<close>

text \<open>
  Claim C6 says that every request whose path has an extension outside \<^verbatim>\<open>txt\<close>, \<^verbatim>\<open>pdf\<close>,
  \<^verbatim>\<open>zip\<close> fails with the unsupported-type error. The existence check of \<open>sign_document\<close>
  comes first: for a path that does not exist the result is the document-not-found
  failure, whatever the extension.
\<close>

theorem unsupported_type_counterexample:
  "lower (path_suffix ''missing.exe'') \<notin> {''.txt'', ''.pdf'', ''.zip''}
   \<and> (\<exists>r. fst (sign_document demo_crypto demo_signer demo_world
               (SignatureRequest_init ''missing.exe'' ''Ada'' ''ada@example.com'')) = Inr r
        \<and> message r = Documento_no_encontrado
        \<and> message r \<noteq> Tipo_de_documento_no_soportado)"
proof -
  have "lower (path_suffix ''missing.exe'') \<notin> {''.txt'', ''.pdf'', ''.zip''}"
    by code_simp
  moreover have "\<not> path_exists demo_world
      (document_path (SignatureRequest_init ''missing.exe'' ''Ada'' ''ada@example.com''))"
    by code_simp
  ultimately show ?thesis
    by (simp add: sign_document_missing SignatureResult_init_def)
qed

text \<open>
  Claim C6, amended. For every request whose path has an extension that, in lower case,
  is none of \<^verbatim>\<open>.txt\<close>, \<^verbatim>\<open>.pdf\<close>, \<^verbatim>\<open>.zip\<close>, \<open>sign_document\<close> returns a failure and leaves the
  world as it was, so that no helper routine, the document-hash routine among them, is
  invoked: with the unsupported-type error when the document exists, with the
  document-not-found error when it does not. The type is a function of the path alone.
\<close>

theorem unsupported_type_before_hashing:
  assumes "lower (path_suffix (document_path request)) \<notin> {''.txt'', ''.pdf'', ''.zip''}"
  shows "\<exists>r. sign_document L signer w request = (Inr r, w)
    \<and> \<not> success r
    \<and> message r =
        (if path_exists w (document_path request) then Tipo_de_documento_no_soportado
         else Documento_no_encontrado)"
proof (cases "path_exists w (document_path request)")
  case True
  with assms show ?thesis
    by (simp add: sign_document_unsupported detect_document_type_None SignatureResult_init_def)
next
  case False
  then show ?thesis
    by (simp add: sign_document_missing SignatureResult_init_def)
qed

theorem unsupported_type_before_hashing_witness:
  "\<exists>r. sign_document demo_crypto demo_signer demo_world
          (SignatureRequest_init ''notes.exe'' ''Ada'' ''ada@example.com'') = (Inr r, demo_world)
     \<and> calls demo_world = []
     \<and> \<not> success r
     \<and> message r = Tipo_de_documento_no_soportado"
proof -
  have 1: "lower (path_suffix (document_path
      (SignatureRequest_init ''notes.exe'' ''Ada'' ''ada@example.com'')))
      \<notin> {''.txt'', ''.pdf'', ''.zip''}"
    by code_simp
  have 2: "path_exists demo_world (document_path
      (SignatureRequest_init ''notes.exe'' ''Ada'' ''ada@example.com''))"
    by code_simp
  have 3: "calls demo_world = []"
    by (simp add: demo_world_def)
  show ?thesis
    using unsupported_type_before_hashing [OF 1, of demo_crypto demo_signer demo_world] 2 3
    by simp
qed

subsection \<open>C7: \<open>sign_batch\<close> returns one result per path, in order\<close>




end
